theory Spec2Isabelle
  imports Complex_Main
begin

section \<open>Python primitives used by the handlers\<close>

text \<open>
  Strings are byte lists. The model follows Python on ASCII text: \<open>lower\<close>, \<open>upper\<close>,
  \<open>strip\<close> and \<open>isdigit\<close> are given their ASCII behaviour, bytes above 127 are left
  alone.
\<close>

datatype py_error = IndexError | TypeError | AttributeError

definition code_of :: "char \<Rightarrow> nat" where
  "code_of c = of_char c"

definition is_digit :: "char \<Rightarrow> bool" where
  "is_digit c = (48 \<le> code_of c \<and> code_of c \<le> 57)"

definition is_upper :: "char \<Rightarrow> bool" where
  "is_upper c = (65 \<le> code_of c \<and> code_of c \<le> 90)"

definition is_lower :: "char \<Rightarrow> bool" where
  "is_lower c = (97 \<le> code_of c \<and> code_of c \<le> 122)"

definition is_space :: "char \<Rightarrow> bool" where
  "is_space c = (code_of c = 32 \<or> (9 \<le> code_of c \<and> code_of c \<le> 13)
                 \<or> (28 \<le> code_of c \<and> code_of c \<le> 31))"

definition py_lower :: "string \<Rightarrow> string" where
  "py_lower s = map (\<lambda>c. if is_upper c then char_of (code_of c + 32) else c) s"

definition py_upper :: "string \<Rightarrow> string" where
  "py_upper s = map (\<lambda>c. if is_lower c then char_of (code_of c - 32) else c) s"

definition py_strip :: "string \<Rightarrow> string" where
  "py_strip s = rev (dropWhile is_space (rev (dropWhile is_space s)))"

text \<open>\<open>s.split(sep)\<close> for a separator of one character: never empty, never raises.\<close>

fun py_split :: "char \<Rightarrow> string \<Rightarrow> string list" where
  "py_split sep [] = [[]]"
| "py_split sep (c # cs) =
     (if c = sep then [] # py_split sep cs
      else (case py_split sep cs of
              [] \<Rightarrow> [[c]]
            | w # ws \<Rightarrow> (c # w) # ws))"

text \<open>\<open>sep.join(xs)\<close>.\<close>

fun py_join :: "string \<Rightarrow> string list \<Rightarrow> string" where
  "py_join sep [] = []"
| "py_join sep [x] = x"
| "py_join sep (x # y # ys) = x @ sep @ py_join sep (y # ys)"

text \<open>
  \<open>xs[i:j]\<close>: a negative bound counts from the end, both bounds are clamped to the
  list, and an empty range gives the empty list. A slice never raises.
\<close>

definition slice_bound :: "nat \<Rightarrow> int \<Rightarrow> nat" where
  "slice_bound n i = (if i < 0 then nat (max (int n + i) 0) else min (nat i) n)"

definition py_slice :: "'a list \<Rightarrow> int \<Rightarrow> int \<Rightarrow> 'a list" where
  "py_slice xs i j =
     (let lo = slice_bound (length xs) i; hi = slice_bound (length xs) j
      in take (hi - lo) (drop lo xs))"

text \<open>
  \<open>xs[0]\<close> raises IndexError on the empty list.
\<close>

definition py_index0 :: "'a list \<Rightarrow> py_error + 'a" where
  "py_index0 xs = (case xs of [] \<Rightarrow> Inl IndexError | x # _ \<Rightarrow> Inr x)"

text \<open>
  Ordering of text under SQLite's default BINARY collation, which is also Python's
  ordering of \<open>str\<close>: byte by byte, a proper prefix first.
\<close>

fun str_lt :: "string \<Rightarrow> string \<Rightarrow> bool" where
  "str_lt [] [] = False"
| "str_lt [] (y # ys) = True"
| "str_lt (x # xs) [] = False"
| "str_lt (x # xs) (y # ys) = (code_of x < code_of y \<or> (x = y \<and> str_lt xs ys))"

section \<open>Dates and times\<close>

text \<open>
  A \<open>datetime\<close> is its wall-clock reading in microseconds and, when it is aware, the
  offset of its \<open>tzinfo\<close> from UTC in microseconds; \<open>tz_offset = None\<close> is a naive value.
  \<open>datetime.now(timezone.utc)\<close> reads the clock, which the handlers take as an argument.
\<close>

record datetime =
  wall_us :: int
  tz_offset :: "int option"

definition now_utc :: "int \<Rightarrow> datetime" where
  "now_utc now = \<lparr>wall_us = now, tz_offset = Some 0\<rparr>"

text \<open>\<open>start.replace(tzinfo=timezone.utc)\<close> keeps the reading and attaches UTC.\<close>

definition replace_tzinfo_utc :: "datetime \<Rightarrow> datetime" where
  "replace_tzinfo_utc d = d\<lparr>tz_offset := Some 0\<rparr>"

text \<open>
  The normalisation both completion paths apply:
  \<^verbatim>\<open>if start and start.tzinfo is None: start = start.replace(tzinfo=timezone.utc)\<close>
\<close>

definition normalise_start :: "datetime option \<Rightarrow> datetime option" where
  "normalise_start start =
     (case start of
        None \<Rightarrow> None
      | Some d \<Rightarrow> (if tz_offset d = None then Some (replace_tzinfo_utc d) else Some d))"

text \<open>
  \<open>a - b\<close> on datetimes is a timedelta, here its length in microseconds. Mixing a
  naive and an aware value raises TypeError.
\<close>

definition dt_sub :: "datetime \<Rightarrow> datetime \<Rightarrow> py_error + int" where
  "dt_sub a b =
     (case (tz_offset a, tz_offset b) of
        (None, None) \<Rightarrow> Inr (wall_us a - wall_us b)
      | (Some oa, Some ob) \<Rightarrow> Inr ((wall_us a - oa) - (wall_us b - ob))
      | _ \<Rightarrow> Inl TypeError)"

section \<open>Floating point\<close>

text \<open>
  Prices and costs are Python floats. Their arithmetic is not interpreted here: the
  operations the billing code uses are the fields of a record the handlers take as an
  argument, so that what is proved about billing holds for IEEE doubles as for any
  other reading of them.
  \<^item> \<open>total_seconds\<close>: \<open>timedelta.total_seconds()\<close>, from a length in microseconds;
  \<^item> \<open>float_of_int\<close>: the conversion Python applies to an int operand;
  \<^item> \<open>fdiv\<close>, \<open>fmul\<close>: \<open>/\<close> and \<open>*\<close> on floats;
  \<^item> \<open>fceil\<close>: \<open>math.ceil\<close>;
  \<^item> \<open>fround\<close>: \<open>round(x, ndigits)\<close>.
\<close>

record 'f float_ops =
  total_seconds :: "int \<Rightarrow> 'f"
  float_of_int :: "int \<Rightarrow> 'f"
  fdiv :: "'f \<Rightarrow> 'f \<Rightarrow> 'f"
  fmul :: "'f \<Rightarrow> 'f \<Rightarrow> 'f"
  fceil :: "'f \<Rightarrow> int"
  fround :: "'f \<Rightarrow> int \<Rightarrow> 'f"

text \<open>Exact arithmetic on rationals, for evaluating scenarios.\<close>

definition round_half_even :: "rat \<Rightarrow> int" where
  "round_half_even x =
     (let f = \<lfloor>x\<rfloor>; r = x - of_int f
      in if r < 1 / 2 then f
         else if 1 / 2 < r then f + 1
         else if even f then f else f + 1)"

definition exact_ops :: "rat float_ops" where
  "exact_ops =
     \<lparr>total_seconds = (\<lambda>us. of_int us / 1000000),
      float_of_int = of_int,
      fdiv = (\<lambda>x y. x / y),
      fmul = (\<lambda>x y. x * y),
      fceil = (\<lambda>x. \<lceil>x\<rceil>),
      fround = (\<lambda>x n. of_int (round_half_even (x * 10 ^ nat n)) / 10 ^ nat n)\<rparr>"

text \<open>
  The billing arithmetic of \<open>_complete_booking\<close> and \<open>user_release\<close>:
  \<^verbatim>\<open>hours = (end - start).total_seconds() / 3600\<close>
  \<^verbatim>\<open>billed_hours = max(1, ceil(hours))\<close>
  \<^verbatim>\<open>total_cost = round(billed_hours * price, 2)\<close>
\<close>

definition billed_hours :: "'f float_ops \<Rightarrow> int \<Rightarrow> int" where
  "billed_hours ops elapsed_us =
     max 1 (fceil ops (fdiv ops (total_seconds ops elapsed_us) (float_of_int ops 3600)))"

definition billing :: "'f float_ops \<Rightarrow> int \<Rightarrow> 'f \<Rightarrow> 'f" where
  "billing ops elapsed_us price =
     fround ops (fmul ops (float_of_int ops (billed_hours ops elapsed_us)) price) 2"

section \<open>The tables\<close>

text \<open>
  One record per model class of \<open>core/models.py\<close>, a table as the list of its rows in
  insertion order. Statuses are the strings the code stores.
\<close>

record 'f parking_area =
  a_id :: int
  a_name :: string
  price_per_hour :: 'f

record parking_spot =
  s_id :: int
  spot_identifier :: string
  s_status :: string
  parking_area_id :: int

record car =
  c_id :: int
  license_plate :: string
  c_user_id :: int

record 'f booking =
  b_id :: int
  b_user_id :: int
  b_car_id :: int
  b_spot_id :: int
  start_time :: "datetime option"
  end_time :: "datetime option"
  b_status :: string
  total_cost :: "'f option"

record user =
  u_id :: int
  username :: string
  email :: string
  password_hash :: string
  fs_uniquifier :: string
  secret_answer_hash :: string
  roles :: "string list"

record 'f db =
  areas :: "'f parking_area list"
  spots :: "parking_spot list"
  cars :: "car list"
  bookings :: "'f booking list"
  users :: "user list"

text \<open>\<open>Query.first()\<close>: the first row, or None.\<close>

definition first :: "'a list \<Rightarrow> 'a option" where
  "first rows = (case rows of [] \<Rightarrow> None | r # _ \<Rightarrow> Some r)"

text \<open>The id an INTEGER PRIMARY KEY column gives a new row: one more than the largest.\<close>

definition next_id :: "int list \<Rightarrow> int" where
  "next_id ids = fold max ids 0 + 1"

definition has_role :: "user \<Rightarrow> string \<Rightarrow> bool" where
  "has_role u role_name = list_ex (\<lambda>r. r = role_name) (roles u)"

text \<open>The relationships \<open>booking.spot\<close>, \<open>spot.parking_area\<close>, \<open>booking.user\<close>.\<close>

definition booking_spot :: "'f db \<Rightarrow> 'f booking \<Rightarrow> parking_spot option" where
  "booking_spot d b = find (\<lambda>s. s_id s = b_spot_id b) (spots d)"

definition spot_parking_area :: "'f db \<Rightarrow> parking_spot \<Rightarrow> 'f parking_area option" where
  "spot_parking_area d s = find (\<lambda>a. a_id a = parking_area_id s) (areas d)"

definition booking_user :: "'f db \<Rightarrow> 'f booking \<Rightarrow> user option" where
  "booking_user d b = find (\<lambda>u. u_id u = b_user_id b) (users d)"

text \<open>\<open>area.spots\<close>: the spots of an area, in table order.\<close>

definition area_spots :: "'f db \<Rightarrow> int \<Rightarrow> parking_spot list" where
  "area_spots d aid = filter (\<lambda>s. parking_area_id s = aid) (spots d)"

text \<open>Writing an attribute of a loaded row.\<close>

definition set_spot_status :: "int \<Rightarrow> string \<Rightarrow> 'f db \<Rightarrow> 'f db" where
  "set_spot_status sid v d =
     d\<lparr>spots := map (\<lambda>s. if s_id s = sid then s\<lparr>s_status := v\<rparr> else s) (spots d)\<rparr>"

definition put_booking :: "'f booking \<Rightarrow> 'f db \<Rightarrow> 'f db" where
  "put_booking b d =
     d\<lparr>bookings := map (\<lambda>x. if b_id x = b_id b then b else x) (bookings d)\<rparr>"

text \<open>
  Modelled from the spec: the session object \<open>db\<close> of \<open>core/extensions.py\<close>, which
  is not among the sources. The spec has each operation run in one database transaction
  whose mutations are committed atomically: \<open>db.session.commit()\<close> stores the tables of
  the session, and a handler that returns or aborts without it leaves the stored tables
  as they were, whatever it added, changed or flushed in the session.
\<close>

definition commit :: "'f db \<Rightarrow> 'f db" where
  commit_def [simp]: "commit session = session"

definition rollback :: "'f db \<Rightarrow> 'f db \<Rightarrow> 'f db" where
  rollback_def [simp]: "rollback stored session = stored"

text \<open>
  A handler takes the stored tables and returns its response with the tables stored
  afterwards.
\<close>

datatype response =
    Abort nat
  | Flash string
  | Render
  | Json bool nat
  | Rest nat

text \<open>
  \<open>Abort n\<close> is \<open>abort(n)\<close>, \<open>get_or_404\<close> or an uncaught exception (500);
  \<open>Flash c\<close> a redirect or a rendered page after \<open>flash(message, c)\<close>;
  \<open>Render\<close> a page or a redirect with no new message;
  \<open>Json ok n\<close> a \<open>jsonify(ok=ok, ...)\<close> with status n; \<open>Rest n\<close> the status of a
  REST resource. Message texts are left out.
\<close>

definition py_not :: "int option \<Rightarrow> bool" where
  "py_not x = (x = None \<or> x = Some 0)"

section \<open>Spot selection and display order\<close>

text \<open>
  \<^verbatim>\<open>ParkingSpot.query.filter_by(parking_area_id=area_id, status='available')\<close>
  \<^verbatim>\<open>    .order_by(ParkingSpot.spot_identifier.asc()).first()\<close>
  The database orders the identifiers as text; among equal identifiers the earlier row
  is kept.
\<close>

fun order_by_identifier_first :: "parking_spot list \<Rightarrow> parking_spot option" where
  "order_by_identifier_first [] = None"
| "order_by_identifier_first (s # ss) =
     (case order_by_identifier_first ss of
        None \<Rightarrow> Some s
      | Some m \<Rightarrow> (if str_lt (spot_identifier m) (spot_identifier s) then Some m else Some s))"

definition first_available_spot :: "'f db \<Rightarrow> int \<Rightarrow> parking_spot option" where
  "first_available_spot d aid =
     order_by_identifier_first
       (filter (\<lambda>s. parking_area_id s = aid \<and> s_status s = ''available'') (spots d))"

text \<open>
  The numeric-aware key of \<open>api_admin_area_spot_status\<close>, the one place that uses it:
  \<^verbatim>\<open>[int(t) if t.isdigit() else t.lower() for t in re.split(r'([0-9]+)', ident)]\<close>
  \<open>re.split\<close> with a capturing group returns text, digits, text, ..., text.
\<close>

fun re_split_digits :: "bool \<Rightarrow> string \<Rightarrow> string \<Rightarrow> string list" where
  "re_split_digits in_num cur [] = (if in_num then [rev cur, []] else [rev cur])"
| "re_split_digits in_num cur (c # cs) =
     (if is_digit c
      then (if in_num then re_split_digits True (c # cur) cs
            else rev cur # re_split_digits True [c] cs)
      else (if in_num then rev cur # re_split_digits False [c] cs
            else re_split_digits False (c # cur) cs))"

datatype token = Text string | Num nat

definition int_of_digits :: "string \<Rightarrow> nat" where
  "int_of_digits t = foldl (\<lambda>n c. 10 * n + (code_of c - 48)) 0 t"

definition natural_key :: "string \<Rightarrow> token list" where
  "natural_key ident =
     map (\<lambda>t. if t \<noteq> [] \<and> list_all is_digit t then Num (int_of_digits t) else Text (py_lower t))
       (re_split_digits False [] ident)"

text \<open>
  Python's \<open><\<close> on the key lists: the first differing pair decides, a proper prefix is
  smaller. Keys produced by \<open>natural_key\<close> have text at even and numbers at odd
  positions, so a number never meets a text (where Python would raise).
\<close>

fun token_lt :: "token \<Rightarrow> token \<Rightarrow> bool" where
  "token_lt (Num m) (Num n) = (m < n)"
| "token_lt (Text s) (Text t) = str_lt s t"
| "token_lt _ _ = False"

fun key_lt :: "token list \<Rightarrow> token list \<Rightarrow> bool" where
  "key_lt [] [] = False"
| "key_lt [] (y # ys) = True"
| "key_lt (x # xs) [] = False"
| "key_lt (x # xs) (y # ys) = (if x = y then key_lt xs ys else token_lt x y)"

definition natural_lt :: "string \<Rightarrow> string \<Rightarrow> bool" where
  "natural_lt s t = key_lt (natural_key s) (natural_key t)"


text \<open>\<open>sorted(rows, key=...)\<close>: stable, by insertion.\<close>

fun insert_sorted :: "('a \<Rightarrow> 'a \<Rightarrow> bool) \<Rightarrow> 'a \<Rightarrow> 'a list \<Rightarrow> 'a list" where
  "insert_sorted lt x [] = [x]"
| "insert_sorted lt x (y # ys) =
     (if lt y x then y # insert_sorted lt x ys else x # y # ys)"

definition sorted_by :: "('a \<Rightarrow> 'a \<Rightarrow> bool) \<Rightarrow> 'a list \<Rightarrow> 'a list" where
  "sorted_by lt rows = foldr (insert_sorted lt) rows []"

section \<open>The derived area code\<close>

text \<open>
  Both \<open>ParkingAreaListAPI.get\<close> and \<open>api_admin_area_spot_status\<close> compute
  \<^verbatim>\<open>first_spot.spot_identifier.split('-')[0] if first_spot else ""\<close>
  with \<open>first_spot = area.spots.first()\<close>.
\<close>

definition area_code :: "'f db \<Rightarrow> int \<Rightarrow> py_error + string" where
  "area_code d aid =
     (case first (area_spots d aid) of
        None \<Rightarrow> Inr []
      | Some first_spot \<Rightarrow> py_index0 (py_split CHR ''-'' (spot_identifier first_spot)))"

fun collect :: "(py_error + 'a) list \<Rightarrow> py_error + 'a list" where
  "collect [] = Inr []"
| "collect (r # rs) =
     (case r of
        Inl e \<Rightarrow> Inl e
      | Inr x \<Rightarrow> (case collect rs of Inl e \<Rightarrow> Inl e | Inr xs \<Rightarrow> Inr (x # xs)))"

text \<open>\<open>ParkingAreaListAPI.get\<close>: id, name and code of every area.\<close>

definition parking_area_list_get :: "'f db \<Rightarrow> py_error + (int \<times> string \<times> string) list" where
  "parking_area_list_get d =
     collect (map (\<lambda>a. case area_code d (a_id a) of
                          Inl e \<Rightarrow> Inl e
                        | Inr code \<Rightarrow> Inr (a_id a, a_name a, code)) (areas d))"

record spot_status_view =
  v_area_name :: string
  v_area_code :: string
  v_occupied_identifiers :: "string list"
  v_available_identifiers :: "string list"

definition api_admin_area_spot_status :: "user \<Rightarrow> int \<Rightarrow> 'f db \<Rightarrow> response + spot_status_view" where
  "api_admin_area_spot_status current_user aid d =
     (if \<not> has_role current_user ''admin'' then Inl (Abort 403)
      else case find (\<lambda>a. a_id a = aid) (areas d) of
        None \<Rightarrow> Inl (Abort 404)
      | Some area \<Rightarrow>
          (case area_code d (a_id area) of
             Inl e \<Rightarrow> Inl (Abort 500)
           | Inr code \<Rightarrow>
               (let rows = sorted_by (\<lambda>s t. natural_lt (spot_identifier s) (spot_identifier t))
                             (area_spots d (a_id area))
                in Inr \<lparr>v_area_name = a_name area,
                        v_area_code = code,
                        v_occupied_identifiers =
                          map spot_identifier (filter (\<lambda>s. s_status s \<noteq> ''available'') rows),
                        v_available_identifiers =
                          map spot_identifier (filter (\<lambda>s. s_status s = ''available'') rows)\<rparr>)))"

section \<open>Account recovery\<close>

text \<open>
  werkzeug's \<open>generate_password_hash\<close> and \<open>check_password_hash\<close> are arguments of the
  handlers.
\<close>

record hasher =
  generate_password_hash :: "string \<Rightarrow> string"
  check_password_hash :: "string \<Rightarrow> string \<Rightarrow> bool"

definition set_password :: "hasher \<Rightarrow> string \<Rightarrow> user \<Rightarrow> user" where
  "set_password H password u = u\<lparr>password_hash := generate_password_hash H password\<rparr>"

definition check_secret_answer :: "hasher \<Rightarrow> user \<Rightarrow> string \<Rightarrow> bool" where
  "check_secret_answer H u secret_answer =
     (if secret_answer_hash u = [] then False
      else check_password_hash H (secret_answer_hash u) (py_strip (py_lower secret_answer)))"

definition put_user :: "user \<Rightarrow> 'f db \<Rightarrow> 'f db" where
  "put_user u d = d\<lparr>users := map (\<lambda>x. if u_id x = u_id u then u else x) (users d)\<rparr>"

text \<open>
  \<^verbatim>\<open>'-'.join(user.fs_uniquifier.split('-')[1:-1])\<close>, the body of the \<open>try\<close> in both
  reset paths. Neither \<open>split\<close>, the slice nor \<open>join\<close> can raise, so the value is
  always a string; the result type keeps the place of the exception the \<open>except\<close>
  clauses are written for.
\<close>

definition expected_partial_key :: "string \<Rightarrow> py_error + string" where
  "expected_partial_key uniq = Inr (py_join ''-'' (py_slice (py_split CHR ''-'' uniq) 1 (- 1)))"

definition special_chars :: "char list" where
  "special_chars = ''!@#$%^&*(),.?:{}|<>'' @ [CHR 0x22]"

definition is_password_strong :: "string \<Rightarrow> bool" where
  "is_password_strong password =
     (if length password < 6 then False
      else if \<not> list_ex is_upper password then False
      else if \<not> list_ex is_digit password then False
      else if \<not> list_ex (\<lambda>c. c \<in> set special_chars) password then False
      else True)"

record reset_request =
  r_email :: "string option"
  r_secret_answer :: "string option"
  r_secret_key :: "string option"
  r_new_password :: "string option"

text \<open>
  \<open>ForgotPasswordResetAPI.post\<close>. The request parser answers 400 when one of the four
  required arguments is missing.
\<close>

definition forgot_password_reset_post ::
    "hasher \<Rightarrow> reset_request \<Rightarrow> 'f db \<Rightarrow> response \<times> 'f db" where
  "forgot_password_reset_post H data d =
     (case (r_email data, r_secret_answer data, r_secret_key data, r_new_password data) of
        (Some em, Some answer, Some secret_key, Some new_password) \<Rightarrow>
          (case find (\<lambda>u. email u = em) (users d) of
             None \<Rightarrow> (Rest 400, d)
           | Some u \<Rightarrow>
               (case expected_partial_key (fs_uniquifier u) of
                  Inl e \<Rightarrow> (Rest 500, d)
                | Inr expected \<Rightarrow>
                    (if \<not> check_secret_answer H u answer \<or> expected \<noteq> secret_key
                     then (Rest 400, d)
                     else if \<not> is_password_strong new_password then (Rest 400, d)
                     else (Rest 200, commit (put_user (set_password H new_password u) d)))))
      | _ \<Rightarrow> (Rest 400, d))"

text \<open>
  \<open>reset_password_verify\<close>, with the validators of \<open>ResetPasswordForm\<close>:
  \<open>DataRequired\<close> refuses an empty or blank field, the password has at least six
  characters and is repeated; the CSRF token of the form is taken to be valid. The
  handler also returns the e-mail kept in the session.
\<close>

record reset_form =
  f_secret_answer :: string
  f_secret_key :: string
  f_password :: string
  f_confirm_password :: string

definition data_required :: "string \<Rightarrow> bool" where
  "data_required s = (s \<noteq> [] \<and> py_strip s \<noteq> [])"

definition validate_on_submit :: "bool \<Rightarrow> reset_form \<Rightarrow> bool" where
  "validate_on_submit is_post form =
     (is_post \<and> data_required (f_secret_answer form) \<and> data_required (f_secret_key form)
      \<and> data_required (f_password form) \<and> 6 \<le> length (f_password form)
      \<and> data_required (f_confirm_password form)
      \<and> f_confirm_password form = f_password form)"

text \<open>
  The second check of \<open>reset_password_verify\<close>:
  \<^verbatim>\<open>try: is_key_correct = (expected_partial_key == form.secret_key.data)\<close>
  \<^verbatim>\<open>except IndexError: is_key_correct = (user.fs_uniquifier == form.secret_key.data)\<close>
\<close>

definition is_key_correct :: "user \<Rightarrow> string \<Rightarrow> bool" where
  "is_key_correct u secret_key =
     (case expected_partial_key (fs_uniquifier u) of
        Inr expected \<Rightarrow> (expected = secret_key)
      | Inl e \<Rightarrow> (fs_uniquifier u = secret_key))"

definition reset_password_verify ::
    "hasher \<Rightarrow> string option \<Rightarrow> bool \<Rightarrow> reset_form \<Rightarrow> 'f db \<Rightarrow> response \<times> 'f db \<times> string option" where
  "reset_password_verify H session_email is_post form d =
     (case session_email of
        None \<Rightarrow> (Flash ''warning'', d, session_email)
      | Some em \<Rightarrow>
          (if em = [] then (Flash ''warning'', d, session_email)
           else case find (\<lambda>u. email u = em) (users d) of
             None \<Rightarrow> (Flash ''danger'', d, session_email)
           | Some u \<Rightarrow>
               (if validate_on_submit is_post form then
                  (let is_answer_correct = check_secret_answer H u (f_secret_answer form);
                       key_correct = is_key_correct u (f_secret_key form)
                   in if is_answer_correct \<and> key_correct
                      then (Flash ''success'',
                            commit (put_user (set_password H (f_password form) u) d), None)
                      else (Flash ''danger'', d, session_email))
                else (Render, d, session_email))))"


section \<open>The booking and spot lifecycle\<close>

definition active_or_pending :: "string \<Rightarrow> bool" where
  "active_or_pending st = (st = ''active'' \<or> st = ''pending'')"

text \<open>
  \<^verbatim>\<open>Booking.query.filter(Booking.car_id == car_id,\<close>
  \<^verbatim>\<open>                     Booking.status.in_(('active', 'pending'))).first()\<close>
\<close>

definition existing_for_car :: "'f db \<Rightarrow> int \<Rightarrow> 'f booking option" where
  "existing_for_car d cid =
     first (filter (\<lambda>b. b_car_id b = cid \<and> active_or_pending (b_status b)) (bookings d))"

definition add_booking :: "'f booking \<Rightarrow> 'f db \<Rightarrow> 'f db" where
  "add_booking b d = d\<lparr>bookings := bookings d @ [b]\<rparr>"

definition add_car :: "car \<Rightarrow> 'f db \<Rightarrow> 'f db" where
  "add_car c d = d\<lparr>cars := cars d @ [c]\<rparr>"

text \<open>
  \<open>user_book\<close>. The form values are \<open>request.form.get(..., type=int)\<close>: None when
  missing or not a number. \<open>Booking(...)\<close> is built without a start time, so the column
  default, the time of the insert, fills it.
\<close>

definition user_book ::
    "user \<Rightarrow> int \<Rightarrow> int option \<Rightarrow> int option \<Rightarrow> 'f db \<Rightarrow> response \<times> 'f db" where
  "user_book current_user now area_id_arg car_id_arg d =
     (if has_role current_user ''admin'' then (Abort 403, d)
      else if py_not area_id_arg \<or> py_not car_id_arg then (Flash ''danger'', d)
      else case (area_id_arg, car_id_arg) of
        (Some area_id, Some car_id) \<Rightarrow>
          (case find (\<lambda>c. c_id c = car_id) (cars d) of
             None \<Rightarrow> (Abort 404, d)
           | Some car \<Rightarrow>
               (if c_user_id car \<noteq> u_id current_user then (Abort 403, d)
                else case existing_for_car d car_id of
                  Some existing \<Rightarrow> (Flash ''warning'', d)
                | None \<Rightarrow>
                    (case first_available_spot d area_id of
                       None \<Rightarrow> (Flash ''danger'', d)
                     | Some spot \<Rightarrow>
                         (let d1 = set_spot_status (s_id spot) ''reserved'' d;
                              b = \<lparr>b_id = next_id (map b_id (bookings d1)),
                                   b_user_id = u_id current_user,
                                   b_car_id = car_id,
                                   b_spot_id = s_id spot,
                                   start_time = Some (now_utc now),
                                   end_time = None,
                                   b_status = ''pending'',
                                   total_cost = None\<rparr>
                          in (Flash ''info'', commit (add_booking b d1))))))
      | _ \<Rightarrow> (Flash ''danger'', d))"

text \<open>
  The first step of \<open>admin_offline_book\<close>: the car with the plate, or a new car of the
  account \<open>offline_user\<close>, added to the session and flushed. The new car is stored only
  if the handler reaches its commit.
\<close>

definition find_or_create_car :: "string \<Rightarrow> 'f db \<Rightarrow> response + (car \<times> 'f db)" where
  "find_or_create_car plate d =
     (case first (filter (\<lambda>c. license_plate c = plate) (cars d)) of
        Some car \<Rightarrow> Inr (car, d)
      | None \<Rightarrow>
          (case first (filter (\<lambda>u. username u = ''offline_user'') (users d)) of
             None \<Rightarrow> Inl (Json False 500)
           | Some offline_user \<Rightarrow>
               (let car = \<lparr>c_id = next_id (map c_id (cars d)),
                           license_plate = plate,
                           c_user_id = u_id offline_user\<rparr>
                in Inr (car, add_car car d))))"

text \<open>\<open>admin_offline_book\<close>: the tables \<open>d0\<close> are the session's, \<open>d\<close> the stored ones.\<close>

definition admin_offline_book ::
    "user \<Rightarrow> int \<Rightarrow> string option \<Rightarrow> int option \<Rightarrow> 'f db \<Rightarrow> response \<times> 'f db" where
  "admin_offline_book current_user now plate_arg area_id_arg d =
     (if \<not> has_role current_user ''admin'' then (Abort 403, d)
      else
        (let plate = py_upper (py_strip (case plate_arg of None \<Rightarrow> [] | Some p \<Rightarrow> p))
         in if plate = [] \<or> py_not area_id_arg then (Json False 400, d)
            else case find (\<lambda>a. Some (a_id a) = area_id_arg) (areas d) of
              None \<Rightarrow> (Abort 404, d)
            | Some area \<Rightarrow>
                (case find_or_create_car plate d of
                   Inl resp \<Rightarrow> (resp, d)
                 | Inr (car, d0) \<Rightarrow>
                     (case existing_for_car d0 (c_id car) of
                        Some existing \<Rightarrow> (Json False 400, rollback d d0)
                      | None \<Rightarrow>
                          (case first_available_spot d0 (a_id area) of
                             None \<Rightarrow> (Json False 400, rollback d d0)
                           | Some spot \<Rightarrow>
                               (let d1 = set_spot_status (s_id spot) ''occupied'' d0;
                                    b = \<lparr>b_id = next_id (map b_id (bookings d1)),
                                         b_user_id = c_user_id car,
                                         b_car_id = c_id car,
                                         b_spot_id = s_id spot,
                                         start_time = Some (now_utc now),
                                         end_time = None,
                                         b_status = ''active'',
                                         total_cost = None\<rparr>
                                in (Json True 200, commit (add_booking b d1))))))))"

text \<open>
  \<open>admin_request_approve\<close>. The message flashed after the commit reads
  \<open>b.user.username\<close> and \<open>b.spot.spot_identifier\<close>; when either row is missing that
  raises, after the change was stored.
\<close>

definition admin_request_approve :: "user \<Rightarrow> int \<Rightarrow> int \<Rightarrow> 'f db \<Rightarrow> response \<times> 'f db" where
  "admin_request_approve current_user now booking_id d =
     (if \<not> has_role current_user ''admin'' then (Abort 403, d)
      else case find (\<lambda>b. b_id b = booking_id) (bookings d) of
        None \<Rightarrow> (Abort 404, d)
      | Some b \<Rightarrow>
          (if b_status b \<noteq> ''pending'' then (Flash ''warning'', d)
           else
             (let b1 = b\<lparr>b_status := ''active'', start_time := Some (now_utc now)\<rparr>;
                  d1 = put_booking b1 d;
                  d2 = (case booking_spot d b of
                          Some spot \<Rightarrow> set_spot_status (s_id spot) ''occupied'' d1
                        | None \<Rightarrow> d1)
              in (if booking_user d b = None \<or> booking_spot d b = None then Abort 500
                  else Flash ''success'', commit d2))))"

definition reject_pending :: "'f booking \<Rightarrow> 'f db \<Rightarrow> 'f db" where
  "reject_pending b d =
     (let d1 = (case booking_spot d b of
                  Some spot \<Rightarrow> set_spot_status (s_id spot) ''available'' d
                | None \<Rightarrow> d)
      in put_booking (b\<lparr>b_status := ''rejected''\<rparr>) d1)"

definition admin_request_reject :: "user \<Rightarrow> int \<Rightarrow> 'f db \<Rightarrow> response \<times> 'f db" where
  "admin_request_reject current_user booking_id d =
     (if \<not> has_role current_user ''admin'' then (Abort 403, d)
      else case find (\<lambda>b. b_id b = booking_id) (bookings d) of
        None \<Rightarrow> (Abort 404, d)
      | Some b \<Rightarrow>
          (if b_status b \<noteq> ''pending'' then (Flash ''warning'', d)
           else (Flash ''info'', commit (reject_pending b d))))"

definition user_cancel_pending :: "user \<Rightarrow> int \<Rightarrow> 'f db \<Rightarrow> response \<times> 'f db" where
  "user_cancel_pending current_user booking_id d =
     (case find (\<lambda>b. b_id b = booking_id) (bookings d) of
        None \<Rightarrow> (Abort 404, d)
      | Some b \<Rightarrow>
          (if b_user_id b \<noteq> u_id current_user \<or> b_status b \<noteq> ''pending'' then (Abort 403, d)
           else (Flash ''info'', commit (reject_pending b d))))"

text \<open>
  \<open>_complete_booking\<close>: returns the session's tables after its writes, or the exception
  it lets through.
\<close>

definition complete_booking ::
    "'f float_ops \<Rightarrow> int \<Rightarrow> 'f booking \<Rightarrow> 'f db \<Rightarrow> py_error + 'f db" where
  "complete_booking ops now b d =
     (if b_status b = ''completed'' then Inr d
      else
        (let b1 = b\<lparr>b_status := ''completed'', end_time := Some (now_utc now)\<rparr>;
             start = normalise_start (start_time b1)
         in case booking_spot d b1 of
              None \<Rightarrow> Inr (put_booking b1 d)
            | Some spot \<Rightarrow>
                (let d1 = set_spot_status (s_id spot) ''available'' d
                 in case start of
                      None \<Rightarrow> Inr (put_booking b1 d1)
                    | Some st \<Rightarrow>
                        (case spot_parking_area d spot of
                           None \<Rightarrow> Inl AttributeError
                         | Some area \<Rightarrow>
                             (case dt_sub (now_utc now) st of
                                Inl e \<Rightarrow> Inl e
                              | Inr elapsed \<Rightarrow>
                                  Inr (put_booking
                                         (b1\<lparr>total_cost :=
                                               Some (billing ops elapsed (price_per_hour area))\<rparr>)
                                         d1))))))"

definition admin_offline_release ::
    "'f float_ops \<Rightarrow> user \<Rightarrow> int \<Rightarrow> int \<Rightarrow> 'f db \<Rightarrow> response \<times> 'f db" where
  "admin_offline_release ops current_user now booking_id d =
     (if \<not> has_role current_user ''admin'' then (Abort 403, d)
      else case find (\<lambda>b. b_id b = booking_id) (bookings d) of
        None \<Rightarrow> (Abort 404, d)
      | Some b \<Rightarrow>
          (if b_status b \<noteq> ''active'' then (Flash ''warning'', d)
           else case complete_booking ops now b d of
             Inl e \<Rightarrow> (Abort 500, d)
           | Inr d1 \<Rightarrow> (Flash ''success'', commit d1)))"

text \<open>
  \<open>user_release\<close>. Its message formats \<open>booking.total_cost\<close> after the commit, which
  raises when no cost was computed.
\<close>

definition user_release ::
    "'f float_ops \<Rightarrow> user \<Rightarrow> int \<Rightarrow> int \<Rightarrow> 'f db \<Rightarrow> response \<times> 'f db" where
  "user_release ops current_user now booking_id d =
     (case find (\<lambda>b. b_id b = booking_id) (bookings d) of
        None \<Rightarrow> (Abort 404, d)
      | Some booking \<Rightarrow>
          (if b_user_id booking \<noteq> u_id current_user then (Abort 403, d)
           else if b_status booking = ''completed'' then (Flash ''warning'', d)
           else
             (let b1 = booking\<lparr>b_status := ''completed'', end_time := Some (now_utc now)\<rparr>;
                  start = normalise_start (start_time b1)
              in case (booking_spot d b1, start) of
                   (Some spot, Some st) \<Rightarrow>
                     (let d1 = set_spot_status (s_id spot) ''available'' d
                      in case spot_parking_area d spot of
                           None \<Rightarrow> (Abort 500, rollback d d1)
                         | Some area \<Rightarrow>
                             (case dt_sub (now_utc now) st of
                                Inl e \<Rightarrow> (Abort 500, rollback d d1)
                              | Inr elapsed \<Rightarrow>
                                  (Flash ''success'',
                                   commit
                                     (put_booking
                                        (b1\<lparr>total_cost :=
                                              Some (billing ops elapsed (price_per_hour area))\<rparr>)
                                        d1))))
                 | _ \<Rightarrow>
                     (if total_cost b1 = None then Abort 500 else Flash ''success'',
                      commit (put_booking b1 d)))))"

text \<open>
  \<open>BookingListAPI.post\<close> of the admin API. \<open>fromisoformat\<close> is the parser of the
  timestamps, None where it raises ValueError; \<open>claims_roles\<close> are the roles of the
  token, checked before every request of the blueprint. A field of the request is None
  when the JSON body has no such key; \<open>p_total_cost\<close> is the value of
  \<open>float(data['total_cost']) if data.get('total_cost') else None\<close>. The handler makes
  no check on the car or on the spot.
\<close>

record 'f booking_post =
  p_user_id :: "int option"
  p_car_id :: "int option"
  p_spot_id :: "int option"
  p_start_time :: "string option"
  p_status :: "string option"
  p_end_time :: "string option"
  p_total_cost :: "'f option"

definition booking_list_post ::
    "(string \<Rightarrow> datetime option) \<Rightarrow> string list \<Rightarrow> 'f booking_post \<Rightarrow> 'f db \<Rightarrow> response \<times> 'f db" where
  "booking_list_post fromisoformat claims_roles data d =
     (if \<not> list_ex (\<lambda>r. r = ''admin'') claims_roles then (Rest 403, d)
      else case (p_user_id data, p_car_id data, p_spot_id data, p_start_time data, p_status data) of
        (Some uid, Some cid, Some sid, Some start_text, Some st) \<Rightarrow>
          (case fromisoformat start_text of
             None \<Rightarrow> (Rest 400, d)
           | Some start \<Rightarrow>
               (case (case p_end_time data of
                        None \<Rightarrow> Some None
                      | Some end_text \<Rightarrow>
                          (if end_text = [] then Some None
                           else map_option Some (fromisoformat end_text))) of
                  None \<Rightarrow> (Rest 400, d)
                | Some end \<Rightarrow>
                    (let new_booking = \<lparr>b_id = next_id (map b_id (bookings d)),
                                        b_user_id = uid,
                                        b_car_id = cid,
                                        b_spot_id = sid,
                                        start_time = Some start,
                                        end_time = end,
                                        b_status = st,
                                        total_cost = p_total_cost data\<rparr>;
                         d1 = (case find (\<lambda>s. s_id s = sid) (spots d) of
                                 Some spot \<Rightarrow>
                                   (if st = ''active'' then set_spot_status (s_id spot) ''occupied'' d
                                    else d)
                               | None \<Rightarrow> d)
                     in (Rest 201, commit (add_booking new_booking d1)))))
      | _ \<Rightarrow> (Rest 400, d))"

section \<open>The specification's wording\<close>

text \<open>
  The partial key as the specification words it: split on dashes, drop the first and the
  last segment, rejoin with dashes.
\<close>

definition spec_partial_key :: "string \<Rightarrow> string" where
  "spec_partial_key uniq = py_join ''-'' (butlast (tl (py_split CHR ''-'' uniq)))"

text \<open>The text before the first dash of an identifier.\<close>

definition text_before_dash :: "string \<Rightarrow> string" where
  "text_before_dash ident = takeWhile (\<lambda>c. c \<noteq> CHR ''-'') ident"

section \<open>The invariants of the spec\<close>

definition car_open_bookings :: "'f db \<Rightarrow> int \<Rightarrow> 'f booking list" where
  "car_open_bookings d cid =
     filter (\<lambda>b. b_car_id b = cid \<and> active_or_pending (b_status b)) (bookings d)"

definition spot_active_bookings :: "'f db \<Rightarrow> int \<Rightarrow> 'f booking list" where
  "spot_active_bookings d sid =
     filter (\<lambda>b. b_spot_id b = sid \<and> b_status b = ''active'') (bookings d)"


section \<open>A small installation, for evaluating the handlers\<close>

text \<open>
  One area at 20 per hour with the spots \<open>A-1\<close> to \<open>A-10\<close>, all available; an
  administrator, two customers with a car each, and the account of walk-in cars. The
  second customer's identifier has two segments only. Prices are exact rationals here.
\<close>

definition demo_hasher :: hasher where
  "demo_hasher =
     \<lparr>generate_password_hash = (\<lambda>p. ''#'' @ p),
      check_password_hash = (\<lambda>h p. h = ''#'' @ p)\<rparr>"

definition admin_user :: user where
  "admin_user =
     \<lparr>u_id = 1, username = ''admin'', email = ''admin@example.com'',
      password_hash = ''#admin123'',
      fs_uniquifier = ''0a0a0a0a-1b1b-2c2c-3d3d-4e4e4e4e4e4e'',
      secret_answer_hash = ''#admin'', roles = [''admin'']\<rparr>"

definition asha :: user where
  "asha =
     \<lparr>u_id = 2, username = ''asha'', email = ''asha@example.com'',
      password_hash = ''#Old1!pw'',
      fs_uniquifier = ''123e4567-e89b-12d3-a456-426614174000'',
      secret_answer_hash = ''#rex'', roles = [''user'']\<rparr>"

definition ravi :: user where
  "ravi =
     \<lparr>u_id = 3, username = ''ravi'', email = ''ravi@example.com'',
      password_hash = ''#Old2!pw'',
      fs_uniquifier = ''abc-def'',
      secret_answer_hash = ''#pune'', roles = [''user'']\<rparr>"

definition offline_account :: user where
  "offline_account =
     \<lparr>u_id = 4, username = ''offline_user'', email = ''offline@example.com'',
      password_hash = ''#offline'',
      fs_uniquifier = ''5f5f5f5f-6a6a-7b7b-8c8c-9d9d9d9d9d9d'',
      secret_answer_hash = ''#offline'', roles = [''user'']\<rparr>"

definition demo_spot :: "int \<Rightarrow> string \<Rightarrow> parking_spot" where
  "demo_spot i ident =
     \<lparr>s_id = i, spot_identifier = ident, s_status = ''available'', parking_area_id = 1\<rparr>"

definition demo_db :: "rat db" where
  "demo_db =
     \<lparr>areas = [\<lparr>a_id = 1, a_name = ''Lot1'', price_per_hour = 20\<rparr>],
      spots = [demo_spot 1 ''A-1'', demo_spot 2 ''A-2'', demo_spot 3 ''A-3'',
               demo_spot 4 ''A-4'', demo_spot 5 ''A-5'', demo_spot 6 ''A-6'',
               demo_spot 7 ''A-7'', demo_spot 8 ''A-8'', demo_spot 9 ''A-9'',
               demo_spot 10 ''A-10''],
      cars = [\<lparr>c_id = 1, license_plate = ''KA01AB1234'', c_user_id = 2\<rparr>,
              \<lparr>c_id = 2, license_plate = ''MH12CD5678'', c_user_id = 3\<rparr>],
      bookings = [],
      users = [admin_user, asha, ravi, offline_account]\<rparr>"

text \<open>Two reset attempts by the first customer, by the API and by the form.\<close>

definition asha_reset :: reset_request where
  "asha_reset = \<lparr>r_email = Some ''asha@example.com'', r_secret_answer = Some '' Rex '',
      r_secret_key = Some ''e89b-12d3-a456'', r_new_password = Some ''New1!pass''\<rparr>"

definition asha_form :: reset_form where
  "asha_form = \<lparr>f_secret_answer = '' Rex '', f_secret_key = ''e89b-12d3-a456'',
      f_password = ''newpass'', f_confirm_password = ''newpass''\<rparr>"

text \<open>What the spot-status endpoint answers for the area of the installation.\<close>

definition lot1_view :: spot_status_view where
  "lot1_view =
     \<lparr>v_area_name = ''Lot1'', v_area_code = ''A'', v_occupied_identifiers = [],
      v_available_identifiers =
        [''A-1'', ''A-2'', ''A-3'', ''A-4'', ''A-5'', ''A-6'', ''A-7'', ''A-8'', ''A-9'', ''A-10'']\<rparr>"

text \<open>
  The scenario of the specification: the first customer asks for a spot at \<open>t0\<close>, the
  administrator approves ten minutes later, and the car leaves one hour and ten minutes
  after the approval. Clock readings are microseconds.
\<close>

definition t0 :: int where
  "t0 = 1700000000000000"

definition t_approve :: int where
  "t_approve = t0 + 600000000"

definition t_release :: int where
  "t_release = t_approve + 4200000000"

definition pending_db :: "rat db" where
  "pending_db = snd (user_book asha t0 (Some 1) (Some 1) demo_db)"

definition active_db :: "rat db" where
  "active_db = snd (admin_request_approve admin_user t_approve 1 pending_db)"

definition released_db :: "rat db" where
  "released_db = snd (user_release exact_ops asha t_release 1 active_db)"

text \<open>The reading of a start time as an instant: a naive value counts as UTC.\<close>

definition utc_instant :: "datetime \<Rightarrow> int" where
  "utc_instant st = (case tz_offset st of None \<Rightarrow> wall_us st | Some off \<Rightarrow> wall_us st - off)"

text \<open>
  The booking of the scenario as the request leaves it and as the approval leaves it,
  and the approval time as a naive value.
\<close>

definition pending_booking :: "rat booking" where
  "pending_booking =
     \<lparr>b_id = 1, b_user_id = 2, b_car_id = 1, b_spot_id = 1,
      start_time = Some (now_utc t0), end_time = None, b_status = ''pending'',
      total_cost = None\<rparr>"

definition active_booking :: "rat booking" where
  "active_booking =
     \<lparr>b_id = 1, b_user_id = 2, b_car_id = 1, b_spot_id = 1,
      start_time = Some (now_utc t_approve), end_time = None, b_status = ''active'',
      total_cost = None\<rparr>"

definition naive_start :: datetime where
  "naive_start = \<lparr>wall_us = t_approve, tz_offset = None\<rparr>"



text \<open>
  The installation with every spot taken.
\<close>

definition full_db :: "rat db" where
  "full_db = demo_db\<lparr>spots := map (\<lambda>s. s\<lparr>s_status := ''occupied''\<rparr>) (spots demo_db)\<rparr>"

text \<open>
  The owner releases the booking of the scenario while it is still pending.
\<close>

definition early_release :: "response \<times> rat db" where
  "early_release = user_release exact_ops asha t_approve 1 pending_db"

text \<open>
  The booking of the scenario after its release.
\<close>

definition completed_booking :: "rat booking" where
  "completed_booking =
     active_booking\<lparr>b_status := ''completed'', end_time := Some (now_utc t_release),
                    total_cost := Some 40\<rparr>"

text \<open>
  Two bookings posted to the admin API, as the CSV import posts them. The parser stands
  for \<open>datetime.fromisoformat\<close>: any non-empty text is read as the same naive time.
\<close>

definition iso_parser :: "string \<Rightarrow> datetime option" where
  "iso_parser text = (if text = [] then None else Some \<lparr>wall_us = t0, tz_offset = None\<rparr>)"

definition import_post :: "int \<Rightarrow> int \<Rightarrow> int \<Rightarrow> rat booking_post" where
  "import_post uid cid sid =
     \<lparr>p_user_id = Some uid, p_car_id = Some cid, p_spot_id = Some sid,
      p_start_time = Some ''2023-11-14T22:13:20'', p_status = Some ''active'',
      p_end_time = None, p_total_cost = None\<rparr>"

definition one_import :: "response \<times> rat db" where
  "one_import = booking_list_post iso_parser [''admin''] (import_post 2 1 1) demo_db"

definition same_car_import :: "response \<times> rat db" where
  "same_car_import = booking_list_post iso_parser [''admin''] (import_post 2 1 2) (snd one_import)"

definition same_spot_import :: "response \<times> rat db" where
  "same_spot_import = booking_list_post iso_parser [''admin''] (import_post 3 2 1) (snd one_import)"

text \<open>
  A sequence of the web handlers alone: the first customer's request is rejected, the
  second customer gets the freed spot \<open>A-1\<close> and is approved, the first customer then
  releases the rejected booking, and a walk-in car is booked.
\<close>

definition after_reject :: "rat db" where
  "after_reject = snd (admin_request_reject admin_user 1 pending_db)"

definition rebooked :: "rat db" where
  "rebooked =
     snd (admin_request_approve admin_user t_approve 2
            (snd (user_book ravi t_approve (Some 1) (Some 2) after_reject)))"

definition stale_release :: "response \<times> rat db" where
  "stale_release = user_release exact_ops asha t_release 1 rebooked"

definition walk_in_after :: "response \<times> rat db" where
  "walk_in_after =
     admin_offline_book admin_user t_release (Some ''dl 3c 0001'') (Some 1) (snd stale_release)"

text \<open>
  The owner releases the booking of the scenario after the administrator rejected it;
  and a pending booking on spot 1 posted to the admin API.
\<close>

definition rejected_release :: "response \<times> rat db" where
  "rejected_release = user_release exact_ops asha t_approve 1 after_reject"

definition pending_import :: "response \<times> rat db" where
  "pending_import =
     booking_list_post iso_parser [''admin'']
       ((import_post 2 1 1)\<lparr>p_status := Some ''pending''\<rparr>) demo_db"

section \<open>Strings: splitting, slicing, joining\<close>

lemma py_split_nonempty: "py_split sep s \<noteq> []"
  by (induction s) (auto split: list.splits)

lemma py_split_head: "py_index0 (py_split sep s) = Inr (takeWhile (\<lambda>c. c \<noteq> sep) s)"
  by (induction s) (auto simp: py_index0_def split: list.splits)

lemma py_slice_1_m1: "py_slice xs 1 (- 1) = butlast (tl xs)"
proof (cases xs)
  case Nil
  then show ?thesis by (simp add: py_slice_def slice_bound_def)
next
  case (Cons x ys)
  have lo: "slice_bound (length xs) 1 = 1"
    using Cons by (simp add: slice_bound_def)
  have hi: "slice_bound (length xs) (- 1) = length ys"
    using Cons by (simp add: slice_bound_def)
  show ?thesis
    unfolding py_slice_def Let_def lo hi using Cons by (simp add: butlast_conv_take)
qed

lemma expected_partial_key_spec: "expected_partial_key uniq = Inr (spec_partial_key uniq)"
  by (simp add: expected_partial_key_def spec_partial_key_def py_slice_1_m1)

lemma py_split_dash_free: "sep \<notin> set w \<Longrightarrow> py_split sep w = [w]"
  by (induction w) auto

lemma py_split_append:
  "sep \<notin> set w \<Longrightarrow> py_split sep (w @ sep # rest) = w # py_split sep rest"
  by (induction w) auto

lemma py_split_join:
  "segs \<noteq> [] \<Longrightarrow> \<forall>w \<in> set segs. sep \<notin> set w \<Longrightarrow> py_split sep (py_join [sep] segs) = segs"
proof (induction segs)
  case Nil
  then show ?case by simp
next
  case (Cons x rest)
  show ?case
  proof (cases rest)
    case Nil
    with Cons.prems show ?thesis by (simp add: py_split_dash_free)
  next
    case (Cons y ys)
    with Cons.IH Cons.prems show ?thesis by (simp add: py_split_append)
  qed
qed

lemma few_segments_empty_key:
  "length (py_split CHR ''-'' uniq) < 3 \<Longrightarrow> spec_partial_key uniq = []"
proof -
  assume a: "length (py_split CHR ''-'' uniq) < 3"
  obtain x xs where 1: "py_split CHR ''-'' uniq = x # xs"
    using py_split_nonempty by (cases "py_split CHR ''-'' uniq") auto
  with a have "xs = [] \<or> (\<exists>y. xs = [y])" by (cases xs; cases "tl xs") auto
  with 1 show ?thesis by (auto simp: spec_partial_key_def)
qed

section \<open>Account recovery\<close>

lemma collect_map_Inr: "collect (map (\<lambda>a. Inr (f a)) xs) = Inr (map f xs)"
  by (induction xs) auto

lemma api_reset_success:
  assumes "fst (forgot_password_reset_post H data d) = Rest 200"
  shows "\<exists>u em answer. r_email data = Some em \<and> find (\<lambda>x. email x = em) (users d) = Some u
           \<and> r_secret_answer data = Some answer
           \<and> r_secret_key data = Some (spec_partial_key (fs_uniquifier u))
           \<and> check_password_hash H (secret_answer_hash u) (py_strip (py_lower answer))"
  using assms
  by (auto simp: forgot_password_reset_post_def expected_partial_key_spec check_secret_answer_def
           split: option.splits if_splits)

lemma api_reset_refused:
  assumes "fst (forgot_password_reset_post H data d) \<noteq> Rest 200"
  shows "snd (forgot_password_reset_post H data d) = d"
  using assms
  by (auto simp: forgot_password_reset_post_def expected_partial_key_spec
           split: option.splits if_splits)

lemma is_key_correct_iff: "is_key_correct u key \<longleftrightarrow> key = spec_partial_key (fs_uniquifier u)"
  by (auto simp: is_key_correct_def expected_partial_key_spec)

lemma web_reset_success:
  assumes "fst (reset_password_verify H se is_post form d) = Flash ''success''"
  shows "\<exists>u em. se = Some em \<and> find (\<lambda>x. email x = em) (users d) = Some u
           \<and> f_secret_key form = spec_partial_key (fs_uniquifier u)
           \<and> check_password_hash H (secret_answer_hash u) (py_strip (py_lower (f_secret_answer form)))"
  using assms
  by (auto simp: reset_password_verify_def is_key_correct_iff check_secret_answer_def Let_def
           split: option.splits if_splits)

lemma web_reset_refused:
  assumes "fst (reset_password_verify H se is_post form d) \<noteq> Flash ''success''"
  shows "fst (snd (reset_password_verify H se is_post form d)) = d"
  using assms
  by (auto simp: reset_password_verify_def Let_def split: option.splits if_splits)

lemma uuid_shape_key:
  assumes "\<forall>w \<in> set (a # mid @ [z]). CHR ''-'' \<notin> set w"
  shows "spec_partial_key (py_join ''-'' (a # mid @ [z])) = py_join ''-'' mid"
proof -
  have "py_split CHR ''-'' (py_join [CHR ''-''] (a # mid @ [z])) = a # mid @ [z]"
    using assms by (intro py_split_join) auto
  then show ?thesis by (simp add: spec_partial_key_def)
qed

lemma api_reset_changed:
  assumes "snd (forgot_password_reset_post H data d) \<noteq> d"
  shows "fst (forgot_password_reset_post H data d) = Rest 200"
  using assms api_reset_refused by blast

lemma web_reset_changed:
  assumes "fst (snd (reset_password_verify H se is_post form d)) \<noteq> d"
  shows "fst (reset_password_verify H se is_post form d) = Flash ''success''"
  using assms web_reset_refused by blast

text \<open>
  Claim C9. The partial key the reset paths compare with is the identifier split on
  dashes, without its first and its last segment, rejoined with dashes: for an
  identifier made of dash-free segments \<open>a\<close>, \<open>mid\<close>, \<open>z\<close> it is the segments
  \<open>mid\<close> joined by dashes. A reset, by the API or by the form, answers success or
  changes the stored tables only when the submitted key is this partial key and the
  hash check accepts the lowercased and stripped secret answer.
\<close>

theorem partial_key_guards_reset:
  "expected_partial_key uniq = Inr (spec_partial_key uniq)
   \<and> ((\<forall>w \<in> set (a # mid @ [z]). CHR ''-'' \<notin> set w) \<longrightarrow>
        expected_partial_key (py_join ''-'' (a # mid @ [z])) = Inr (py_join ''-'' mid))
   \<and> (fst (forgot_password_reset_post H data d) = Rest 200
        \<or> snd (forgot_password_reset_post H data d) \<noteq> d \<longrightarrow>
        (\<exists>u em answer. r_email data = Some em \<and> find (\<lambda>x. email x = em) (users d) = Some u
           \<and> r_secret_answer data = Some answer
           \<and> r_secret_key data = Some (spec_partial_key (fs_uniquifier u))
           \<and> check_password_hash H (secret_answer_hash u) (py_strip (py_lower answer))))
   \<and> (fst (reset_password_verify H se is_post form d) = Flash ''success''
        \<or> fst (snd (reset_password_verify H se is_post form d)) \<noteq> d \<longrightarrow>
        (\<exists>u em. se = Some em \<and> find (\<lambda>x. email x = em) (users d) = Some u
           \<and> f_secret_key form = spec_partial_key (fs_uniquifier u)
           \<and> check_password_hash H (secret_answer_hash u)
                (py_strip (py_lower (f_secret_answer form)))))"
proof (intro conjI impI)
  show "expected_partial_key uniq = Inr (spec_partial_key uniq)"
    by (rule expected_partial_key_spec)
next
  assume "\<forall>w \<in> set (a # mid @ [z]). CHR ''-'' \<notin> set w"
  then show "expected_partial_key (py_join ''-'' (a # mid @ [z])) = Inr (py_join ''-'' mid)"
    by (simp only: expected_partial_key_spec uuid_shape_key)
next
  assume "fst (forgot_password_reset_post H data d) = Rest 200
          \<or> snd (forgot_password_reset_post H data d) \<noteq> d"
  then have "fst (forgot_password_reset_post H data d) = Rest 200"
    using api_reset_changed by blast
  then show "\<exists>u em answer. r_email data = Some em \<and> find (\<lambda>x. email x = em) (users d) = Some u
           \<and> r_secret_answer data = Some answer
           \<and> r_secret_key data = Some (spec_partial_key (fs_uniquifier u))
           \<and> check_password_hash H (secret_answer_hash u) (py_strip (py_lower answer))"
    by (rule api_reset_success)
next
  assume "fst (reset_password_verify H se is_post form d) = Flash ''success''
          \<or> fst (snd (reset_password_verify H se is_post form d)) \<noteq> d"
  then have "fst (reset_password_verify H se is_post form d) = Flash ''success''"
    using web_reset_changed by blast
  then show "\<exists>u em. se = Some em \<and> find (\<lambda>x. email x = em) (users d) = Some u
           \<and> f_secret_key form = spec_partial_key (fs_uniquifier u)
           \<and> check_password_hash H (secret_answer_hash u)
                (py_strip (py_lower (f_secret_answer form)))"
    by (rule web_reset_success)
qed

text \<open>
  The first customer resets the password on both paths with the three middle segments
  of the identifier and the answer \<open>Rex\<close> typed with spaces around it.
\<close>

theorem partial_key_guards_reset_witness:
  "expected_partial_key ''123e4567-e89b-12d3-a456-426614174000'' = Inr ''e89b-12d3-a456''
   \<and> fst (forgot_password_reset_post demo_hasher asha_reset demo_db) = Rest 200
   \<and> (\<exists>u. find (\<lambda>x. email x = ''asha@example.com'') (users demo_db) = Some u
          \<and> r_secret_key asha_reset = Some (spec_partial_key (fs_uniquifier u)))
   \<and> fst (reset_password_verify demo_hasher (Some ''asha@example.com'') True asha_form demo_db)
       = Flash ''success''
   \<and> (\<exists>u. find (\<lambda>x. email x = ''asha@example.com'') (users demo_db) = Some u
          \<and> f_secret_key asha_form = spec_partial_key (fs_uniquifier u))"
proof -
  have h1: "\<forall>w \<in> set (''123e4567'' # [''e89b'', ''12d3'', ''a456''] @ [''426614174000'']).
              CHR ''-'' \<notin> set w"
    by simp
  have h2: "fst (forgot_password_reset_post demo_hasher asha_reset demo_db) = Rest 200"
    by code_simp
  have h3: "fst (reset_password_verify demo_hasher (Some ''asha@example.com'') True asha_form demo_db)
       = Flash ''success''"
    by code_simp
  have e: "r_email asha_reset = Some ''asha@example.com''"
    by (simp add: asha_reset_def)
  note t = partial_key_guards_reset [where uniq = "[]" and a = "''123e4567''"
      and mid = "[''e89b'', ''12d3'', ''a456'']"
      and z = "''426614174000''" and H = demo_hasher and data = asha_reset and d = demo_db
      and se = "Some ''asha@example.com''" and is_post = True and form = asha_form]
  have j1: "py_join ''-'' (''123e4567'' # [''e89b'', ''12d3'', ''a456''] @ [''426614174000''])
            = ''123e4567-e89b-12d3-a456-426614174000''"
    by simp
  have j2: "py_join ''-'' [''e89b'', ''12d3'', ''a456''] = ''e89b-12d3-a456''"
    by simp
  from t h1 have "expected_partial_key
        (py_join ''-'' (''123e4567'' # [''e89b'', ''12d3'', ''a456''] @ [''426614174000'']))
      = Inr (py_join ''-'' [''e89b'', ''12d3'', ''a456''])"
    by blast
  then have c1: "expected_partial_key ''123e4567-e89b-12d3-a456-426614174000'' = Inr ''e89b-12d3-a456''"
    unfolding j1 j2 .
  from t h2 have "\<exists>u em answer. r_email asha_reset = Some em
           \<and> find (\<lambda>x. email x = em) (users demo_db) = Some u
           \<and> r_secret_answer asha_reset = Some answer
           \<and> r_secret_key asha_reset = Some (spec_partial_key (fs_uniquifier u))
           \<and> check_password_hash demo_hasher (secret_answer_hash u) (py_strip (py_lower answer))"
    by blast
  with e have c2: "\<exists>u. find (\<lambda>x. email x = ''asha@example.com'') (users demo_db) = Some u
          \<and> r_secret_key asha_reset = Some (spec_partial_key (fs_uniquifier u))"
    by auto
  from t h3 have "\<exists>u em. Some ''asha@example.com'' = Some em
           \<and> find (\<lambda>x. email x = em) (users demo_db) = Some u
           \<and> f_secret_key asha_form = spec_partial_key (fs_uniquifier u)
           \<and> check_password_hash demo_hasher (secret_answer_hash u)
                (py_strip (py_lower (f_secret_answer asha_form)))"
    by blast
  then have c3: "\<exists>u. find (\<lambda>x. email x = ''asha@example.com'') (users demo_db) = Some u
          \<and> f_secret_key asha_form = spec_partial_key (fs_uniquifier u)"
    by auto
  from c1 h2 c2 h3 c3 show ?thesis by blast
qed

section \<open>The derived area code\<close>

lemma area_code_eq:
  "area_code d aid =
     Inr (case first (area_spots d aid) of None \<Rightarrow> [] | Some s \<Rightarrow> text_before_dash (spot_identifier s))"
  by (simp add: area_code_def py_split_head text_before_dash_def split: option.splits)

lemma first_in_set: "first xs = Some x \<Longrightarrow> x \<in> set xs"
  by (cases xs) (auto simp: first_def)

lemma first_None: "first xs = None \<longleftrightarrow> xs = []"
  by (cases xs) (auto simp: first_def)

lemma parking_area_list_get_eq:
  "parking_area_list_get d =
     Inr (map (\<lambda>a. (a_id a, a_name a,
                     case first (area_spots d (a_id a)) of
                       None \<Rightarrow> []
                     | Some s \<Rightarrow> text_before_dash (spot_identifier s))) (areas d))"
  unfolding parking_area_list_get_def area_code_eq by (simp add: collect_map_Inr)

lemma spot_status_code:
  assumes "api_admin_area_spot_status cu aid d = Inr v"
  shows "area_code d aid = Inr (v_area_code v)"
proof -
  from assms obtain area where a: "find (\<lambda>a. a_id a = aid) (areas d) = Some area"
    by (auto simp: api_admin_area_spot_status_def split: if_splits option.splits)
  then have "a_id area = aid" by (auto simp: find_Some_iff)
  with assms a show ?thesis
    by (auto simp: api_admin_area_spot_status_def Let_def split: if_splits sum.splits)
qed

text \<open>
  Claim C8. The code of an area is computed from the spots, not read from a column: it
  is the text before the first dash of the identifier of one of the area's spots (the
  first in table order), and the empty string when the area has no spot. Both the area
  list of the admin API and the spot-status endpoint report this value.
\<close>

theorem area_code_derived:
  "area_code d aid =
     Inr (case first (area_spots d aid) of None \<Rightarrow> [] | Some s \<Rightarrow> text_before_dash (spot_identifier s))
   \<and> (area_spots d aid = [] \<longrightarrow> area_code d aid = Inr [])
   \<and> (area_spots d aid \<noteq> [] \<longrightarrow>
        (\<exists>s \<in> set (area_spots d aid). area_code d aid = Inr (text_before_dash (spot_identifier s))))
   \<and> parking_area_list_get d =
       Inr (map (\<lambda>a. (a_id a, a_name a,
                       case first (area_spots d (a_id a)) of
                         None \<Rightarrow> []
                       | Some s \<Rightarrow> text_before_dash (spot_identifier s))) (areas d))
   \<and> (api_admin_area_spot_status cu aid d = Inr v \<longrightarrow> area_code d aid = Inr (v_area_code v))"
proof (intro conjI impI)
  show "area_code d aid =
     Inr (case first (area_spots d aid) of None \<Rightarrow> [] | Some s \<Rightarrow> text_before_dash (spot_identifier s))"
    by (rule area_code_eq)
next
  assume "area_spots d aid = []"
  then show "area_code d aid = Inr []" by (simp add: area_code_eq first_def)
next
  assume "area_spots d aid \<noteq> []"
  then obtain s where s: "first (area_spots d aid) = Some s"
    using first_None by (cases "first (area_spots d aid)") auto
  then have "s \<in> set (area_spots d aid)" by (rule first_in_set)
  moreover from s have "area_code d aid = Inr (text_before_dash (spot_identifier s))"
    by (simp add: area_code_eq)
  ultimately show "\<exists>s \<in> set (area_spots d aid). area_code d aid = Inr (text_before_dash (spot_identifier s))"
    by blast
next
  show "parking_area_list_get d =
       Inr (map (\<lambda>a. (a_id a, a_name a,
                       case first (area_spots d (a_id a)) of
                         None \<Rightarrow> []
                       | Some s \<Rightarrow> text_before_dash (spot_identifier s))) (areas d))"
    by (rule parking_area_list_get_eq)
next
  assume "api_admin_area_spot_status cu aid d = Inr v"
  then show "area_code d aid = Inr (v_area_code v)" by (rule spot_status_code)
qed

text \<open>
  In the installation the area with the ten spots has code \<open>A\<close>; an area id without
  spots has the empty code.
\<close>

theorem area_code_derived_witness:
  "area_spots demo_db 1 \<noteq> [] \<and> area_code demo_db 1 = Inr ''A''
   \<and> area_spots demo_db 2 = [] \<and> area_code demo_db 2 = Inr []
   \<and> api_admin_area_spot_status admin_user 1 demo_db = Inr lot1_view"
proof -
  have h1: "area_spots demo_db 1 \<noteq> []" by code_simp
  have h2: "area_spots demo_db 2 = []" by code_simp
  have h3: "api_admin_area_spot_status admin_user 1 demo_db = Inr lot1_view" by code_simp
  have v: "v_area_code lot1_view = ''A''" by (simp add: lot1_view_def)
  note t1 = area_code_derived [where d = demo_db and aid = 1 and cu = admin_user and v = lot1_view]
  note t2 = area_code_derived [where d = demo_db and aid = 2]
  from t1 h3 have "area_code demo_db 1 = Inr (v_area_code lot1_view)" by blast
  with v have c1: "area_code demo_db 1 = Inr ''A''" by simp
  from t2 h2 have c2: "area_code demo_db 2 = Inr []" by blast
  from h1 c1 h2 c2 h3 show ?thesis by blast
qed

section \<open>The partial key is total\<close>

lemma few_segments_key:
  "length (py_split CHR ''-'' uniq) < 3 \<Longrightarrow> expected_partial_key uniq = Inr []"
  by (simp add: expected_partial_key_spec few_segments_empty_key)

lemma api_reset_not_500: "fst (forgot_password_reset_post H data d) \<noteq> Rest 500"
  by (auto simp: forgot_password_reset_post_def expected_partial_key_spec
           split: option.splits if_splits)

lemma api_reset_empty_key:
  assumes "find (\<lambda>x. email x = em) (users d) = Some u"
    and "length (py_split CHR ''-'' (fs_uniquifier u)) < 3"
    and "check_secret_answer H u answer" and "is_password_strong pw"
  shows "forgot_password_reset_post H
           \<lparr>r_email = Some em, r_secret_answer = Some answer, r_secret_key = Some [],
            r_new_password = Some pw\<rparr> d
         = (Rest 200, put_user (set_password H pw u) d)"
  using assms by (simp add: forgot_password_reset_post_def few_segments_key)

text \<open>
  Claim C10. The derivation of the partial key returns a string for every identifier
  and never raises; for an identifier of fewer than three dash-separated segments the
  string is empty. So the API never answers with the status of its \<open>except\<close> branch,
  and the key check of the form is the comparison with the partial key, never the
  fallback comparison with the whole identifier. For an account whose identifier has
  fewer than three segments the empty key passes the key check, and with the right
  answer and a strong password the API resets the password.
\<close>

theorem partial_key_never_raises:
  "(\<exists>k. expected_partial_key uniq = Inr k)
   \<and> (length (py_split CHR ''-'' uniq) < 3 \<longrightarrow> expected_partial_key uniq = Inr [])
   \<and> fst (forgot_password_reset_post H data d) \<noteq> Rest 500
   \<and> (is_key_correct u secret_key \<longleftrightarrow> expected_partial_key (fs_uniquifier u) = Inr secret_key)
   \<and> (find (\<lambda>x. email x = em) (users d) = Some u
        \<and> length (py_split CHR ''-'' (fs_uniquifier u)) < 3
        \<and> check_secret_answer H u answer \<and> is_password_strong pw \<longrightarrow>
        is_key_correct u []
        \<and> forgot_password_reset_post H
            \<lparr>r_email = Some em, r_secret_answer = Some answer, r_secret_key = Some [],
             r_new_password = Some pw\<rparr> d
          = (Rest 200, put_user (set_password H pw u) d))"
proof (intro conjI impI)
  show "\<exists>k. expected_partial_key uniq = Inr k"
    by (simp add: expected_partial_key_def)
next
  assume "length (py_split CHR ''-'' uniq) < 3"
  then show "expected_partial_key uniq = Inr []" by (rule few_segments_key)
next
  show "fst (forgot_password_reset_post H data d) \<noteq> Rest 500" by (rule api_reset_not_500)
next
  show "is_key_correct u secret_key \<longleftrightarrow> expected_partial_key (fs_uniquifier u) = Inr secret_key"
    by (auto simp: is_key_correct_def expected_partial_key_def)
next
  assume a: "find (\<lambda>x. email x = em) (users d) = Some u
        \<and> length (py_split CHR ''-'' (fs_uniquifier u)) < 3
        \<and> check_secret_answer H u answer \<and> is_password_strong pw"
  then show "is_key_correct u []"
    by (simp add: is_key_correct_iff few_segments_empty_key)
  from a show "forgot_password_reset_post H
            \<lparr>r_email = Some em, r_secret_answer = Some answer, r_secret_key = Some [],
             r_new_password = Some pw\<rparr> d
          = (Rest 200, put_user (set_password H pw u) d)"
    by (simp add: api_reset_empty_key)
qed

text \<open>
  The second customer, whose identifier is \<open>abc-def\<close>, resets the password with an
  empty key.
\<close>

theorem partial_key_never_raises_witness:
  "length (py_split CHR ''-'' (fs_uniquifier ravi)) < 3
   \<and> expected_partial_key (fs_uniquifier ravi) = Inr []
   \<and> find (\<lambda>x. email x = ''ravi@example.com'') (users demo_db) = Some ravi
   \<and> check_secret_answer demo_hasher ravi ''Pune'' \<and> is_password_strong ''New2!pass''
   \<and> fst (forgot_password_reset_post demo_hasher
            \<lparr>r_email = Some ''ravi@example.com'', r_secret_answer = Some ''Pune'',
             r_secret_key = Some [], r_new_password = Some ''New2!pass''\<rparr> demo_db) = Rest 200"
proof -
  have h1: "length (py_split CHR ''-'' (fs_uniquifier ravi)) < 3" by code_simp
  have h2: "find (\<lambda>x. email x = ''ravi@example.com'') (users demo_db) = Some ravi" by code_simp
  have h3: "check_secret_answer demo_hasher ravi ''Pune''" by code_simp
  have h4: "is_password_strong ''New2!pass''" by code_simp
  note t = partial_key_never_raises [where uniq = "fs_uniquifier ravi" and u = ravi
      and em = "''ravi@example.com''" and d = demo_db and H = demo_hasher
      and answer = "''Pune''" and pw = "''New2!pass''"]
  from t h1 have c1: "expected_partial_key (fs_uniquifier ravi) = Inr []" by blast
  from t h1 h2 h3 h4 have c2: "fst (forgot_password_reset_post demo_hasher
            \<lparr>r_email = Some ''ravi@example.com'', r_secret_answer = Some ''Pune'',
             r_secret_key = Some [], r_new_password = Some ''New2!pass''\<rparr> demo_db) = Rest 200"
    by simp
  from h1 c1 h2 h3 h4 c2 show ?thesis by blast
qed

section \<open>Rows and their updates\<close>

lemma find_replace:
  "find (\<lambda>x. key x = k) xs = Some y \<Longrightarrow> key b = k \<Longrightarrow>
   find (\<lambda>x. key x = k) (map (\<lambda>x. if key x = k then b else x) xs) = Some b"
  by (induction xs) (auto split: if_splits)

lemma find_put_booking:
  "find (\<lambda>x. b_id x = k) (bookings d) = Some y \<Longrightarrow> b_id b = k \<Longrightarrow>
   find (\<lambda>x. b_id x = k) (bookings (put_booking b d)) = Some b"
  by (simp add: put_booking_def find_replace)

lemma find_key: "find (\<lambda>x. key x = k) xs = Some y \<Longrightarrow> key y = k"
  by (auto simp: find_Some_iff)


lemma bookings_set_spot_status [simp]: "bookings (set_spot_status k v d) = bookings d"
  by (simp add: set_spot_status_def)

lemma spots_put_booking [simp]: "spots (put_booking b d) = spots d"
  by (simp add: put_booking_def)

lemma areas_set_spot_status [simp]: "areas (set_spot_status k v d) = areas d"
  by (simp add: set_spot_status_def)

lemma areas_put_booking [simp]: "areas (put_booking b d) = areas d"
  by (simp add: put_booking_def)



section \<open>Completion and billing\<close>

lemma dt_sub_normalised:
  "normalise_start (Some st) = Some st' \<Longrightarrow> dt_sub (now_utc now) st' = Inr (now - utc_instant st)"
  by (auto simp: normalise_start_def dt_sub_def now_utc_def replace_tzinfo_utc_def utc_instant_def
           split: if_splits option.splits)

lemma normalise_start_Some: "\<exists>st'. normalise_start (Some st) = Some st'"
  by (simp add: normalise_start_def)

lemma booking_spot_update [simp]:
  "booking_spot d (b\<lparr>b_status := x, end_time := y\<rparr>) = booking_spot d b"
  by (simp add: booking_spot_def)

lemma complete_booking_cost:
  assumes "b_status b \<noteq> ''completed''"
    and "booking_spot d b = Some s" and "spot_parking_area d s = Some a"
    and "start_time b = Some st"
  shows "complete_booking ops now b d =
     Inr (put_booking
            (b\<lparr>b_status := ''completed'', end_time := Some (now_utc now),
               total_cost := Some (billing ops (now - utc_instant st) (price_per_hour a))\<rparr>)
            (set_spot_status (s_id s) ''available'' d))"
proof -
  obtain st' where n: "normalise_start (Some st) = Some st'"
    using normalise_start_Some by blast
  then have "dt_sub (now_utc now) st' = Inr (now - utc_instant st)"
    by (rule dt_sub_normalised)
  with assms n show ?thesis
    by (simp add: complete_booking_def Let_def)
qed

lemma admin_release_cost:
  assumes "has_role cu ''admin''"
    and "find (\<lambda>x. b_id x = bid) (bookings d) = Some b" and "b_status b = ''active''"
    and "booking_spot d b = Some s" and "spot_parking_area d s = Some a"
    and "start_time b = Some st"
  shows "snd (admin_offline_release ops cu now bid d) =
     put_booking
       (b\<lparr>b_status := ''completed'', end_time := Some (now_utc now),
          total_cost := Some (billing ops (now - utc_instant st) (price_per_hour a))\<rparr>)
       (set_spot_status (s_id s) ''available'' d)"
proof -
  have "b_status b \<noteq> ''completed''" using assms(3) by simp
  from complete_booking_cost [OF this assms(4,5,6)] assms(1,2,3)
  show ?thesis by (simp add: admin_offline_release_def)
qed

lemma user_release_cost:
  assumes "find (\<lambda>x. b_id x = bid) (bookings d) = Some b" and "b_user_id b = u_id cu"
    and "b_status b \<noteq> ''completed''"
    and "booking_spot d b = Some s" and "spot_parking_area d s = Some a"
    and "start_time b = Some st"
  shows "snd (user_release ops cu now bid d) =
     put_booking
       (b\<lparr>b_status := ''completed'', end_time := Some (now_utc now),
          total_cost := Some (billing ops (now - utc_instant st) (price_per_hour a))\<rparr>)
       (set_spot_status (s_id s) ''available'' d)"
proof -
  obtain st' where n: "normalise_start (Some st) = Some st'"
    using normalise_start_Some by blast
  then have "dt_sub (now_utc now) st' = Inr (now - utc_instant st)"
    by (rule dt_sub_normalised)
  with assms n show ?thesis
    by (simp add: user_release_def Let_def)
qed

lemma find_after_completion:
  assumes "find (\<lambda>x. b_id x = bid) (bookings d) = Some b" and "b_id b' = b_id b"
  shows "find (\<lambda>x. b_id x = bid) (bookings (put_booking b' (set_spot_status k v d))) = Some b'"
proof -
  have "b_id b = bid" using assms(1) by (rule find_key)
  with assms show ?thesis by (simp add: find_put_booking)
qed

lemma billed_hours_min: "1 \<le> billed_hours ops e"
  by (simp add: billed_hours_def)

lemma billed_hours_exact: "billed_hours exact_ops e = max 1 (- ((- e) div 3600000000))"
proof -
  have "(of_int e :: rat) / 1000000 / 3600 = of_int e / of_int 3600000000" by simp
  then have "\<lceil>(of_int e :: rat) / 1000000 / 3600\<rceil> = - ((- e) div 3600000000)"
    by (simp only: ceiling_divide_eq_div)
  then show ?thesis by (simp add: billed_hours_def exact_ops_def)
qed

text \<open>
  Claim C1. A booking with a spot (in an area) and a start time that is completed, by
  the administrator's release of an active booking or by the owner's release, is stored
  with status \<open>completed\<close>, the current time as end time, and the cost
  \<open>round(max(1, ceil(elapsed / 3600)) * price_per_hour, 2)\<close>, where \<open>elapsed\<close> is the
  time from the start, read as UTC when it is naive, to the end. The billed hours are at
  least one; in exact arithmetic they are the elapsed hours rounded up.
\<close>

theorem completion_cost:
  "(has_role cu ''admin'' \<and> find (\<lambda>x. b_id x = bid) (bookings d) = Some b
      \<and> b_status b = ''active'' \<and> booking_spot d b = Some s
      \<and> spot_parking_area d s = Some a \<and> start_time b = Some st \<longrightarrow>
      find (\<lambda>x. b_id x = bid) (bookings (snd (admin_offline_release ops cu now bid d)))
        = Some (b\<lparr>b_status := ''completed'', end_time := Some (now_utc now),
                   total_cost := Some (billing ops (now - utc_instant st) (price_per_hour a))\<rparr>))
   \<and> (find (\<lambda>x. b_id x = bid) (bookings d) = Some b \<and> b_user_id b = u_id cu
      \<and> b_status b \<noteq> ''completed'' \<and> booking_spot d b = Some s
      \<and> spot_parking_area d s = Some a \<and> start_time b = Some st \<longrightarrow>
      find (\<lambda>x. b_id x = bid) (bookings (snd (user_release ops cu now bid d)))
        = Some (b\<lparr>b_status := ''completed'', end_time := Some (now_utc now),
                   total_cost := Some (billing ops (now - utc_instant st) (price_per_hour a))\<rparr>))
   \<and> billing ops e p =
       fround ops
         (fmul ops
            (float_of_int ops
               (max 1 (fceil ops (fdiv ops (total_seconds ops e) (float_of_int ops 3600)))))
            p) 2
   \<and> 1 \<le> billed_hours ops e
   \<and> billed_hours exact_ops e = max 1 (- ((- e) div 3600000000))
   \<and> (tz_offset st = None \<longrightarrow> utc_instant st = wall_us st)"
proof (intro conjI impI)
  assume h: "has_role cu ''admin'' \<and> find (\<lambda>x. b_id x = bid) (bookings d) = Some b
      \<and> b_status b = ''active'' \<and> booking_spot d b = Some s
      \<and> spot_parking_area d s = Some a \<and> start_time b = Some st"
  then have "snd (admin_offline_release ops cu now bid d) =
     put_booking
       (b\<lparr>b_status := ''completed'', end_time := Some (now_utc now),
          total_cost := Some (billing ops (now - utc_instant st) (price_per_hour a))\<rparr>)
       (set_spot_status (s_id s) ''available'' d)"
    by (intro admin_release_cost) simp_all
  with h show "find (\<lambda>x. b_id x = bid) (bookings (snd (admin_offline_release ops cu now bid d)))
        = Some (b\<lparr>b_status := ''completed'', end_time := Some (now_utc now),
                   total_cost := Some (billing ops (now - utc_instant st) (price_per_hour a))\<rparr>)"
    by (simp add: find_after_completion)
next
  assume h: "find (\<lambda>x. b_id x = bid) (bookings d) = Some b \<and> b_user_id b = u_id cu
      \<and> b_status b \<noteq> ''completed'' \<and> booking_spot d b = Some s
      \<and> spot_parking_area d s = Some a \<and> start_time b = Some st"
  then have "snd (user_release ops cu now bid d) =
     put_booking
       (b\<lparr>b_status := ''completed'', end_time := Some (now_utc now),
          total_cost := Some (billing ops (now - utc_instant st) (price_per_hour a))\<rparr>)
       (set_spot_status (s_id s) ''available'' d)"
    by (intro user_release_cost) simp_all
  with h show "find (\<lambda>x. b_id x = bid) (bookings (snd (user_release ops cu now bid d)))
        = Some (b\<lparr>b_status := ''completed'', end_time := Some (now_utc now),
                   total_cost := Some (billing ops (now - utc_instant st) (price_per_hour a))\<rparr>)"
    by (simp add: find_after_completion)
next
  show "billing ops e p =
       fround ops
         (fmul ops
            (float_of_int ops
               (max 1 (fceil ops (fdiv ops (total_seconds ops e) (float_of_int ops 3600)))))
            p) 2"
    by (simp add: billing_def billed_hours_def)
next
  show "1 \<le> billed_hours ops e" by (rule billed_hours_min)
next
  show "billed_hours exact_ops e = max 1 (- ((- e) div 3600000000))"
    by (rule billed_hours_exact)
next
  assume "tz_offset st = None"
  then show "utc_instant st = wall_us st" by (simp add: utc_instant_def)
qed

text \<open>
  The release of the scenario, one hour and ten minutes after the approval at 20 per
  hour: two hours are billed and the cost is 40, on either completion path.
\<close>

theorem completion_cost_witness:
  "find (\<lambda>x. b_id x = 1) (bookings (snd (admin_offline_release exact_ops admin_user t_release 1 active_db)))
     = Some (active_booking\<lparr>b_status := ''completed'', end_time := Some (now_utc t_release),
                            total_cost := Some 40\<rparr>)
   \<and> find (\<lambda>x. b_id x = 1) (bookings (snd (user_release exact_ops asha t_release 1 active_db)))
     = Some (active_booking\<lparr>b_status := ''completed'', end_time := Some (now_utc t_release),
                            total_cost := Some 40\<rparr>)
   \<and> billed_hours exact_ops 4200000000 = 2
   \<and> utc_instant naive_start = t_approve"
proof -
  have h1: "has_role admin_user ''admin''" by code_simp
  have h2: "find (\<lambda>x. b_id x = 1) (bookings active_db) = Some active_booking" by code_simp
  have h3: "b_status active_booking = ''active''" by code_simp
  have h3': "b_status active_booking \<noteq> ''completed''" by code_simp
  have h4: "booking_spot active_db active_booking
              = Some (demo_spot 1 ''A-1'' \<lparr>s_status := ''occupied''\<rparr>)"
    by code_simp
  have h5: "spot_parking_area active_db (demo_spot 1 ''A-1'' \<lparr>s_status := ''occupied''\<rparr>)
              = Some \<lparr>a_id = 1, a_name = ''Lot1'', price_per_hour = 20\<rparr>"
    by code_simp
  have h6: "start_time active_booking = Some (now_utc t_approve)" by code_simp
  have h7: "b_user_id active_booking = u_id asha" by code_simp
  have h8: "tz_offset naive_start = None" by code_simp
  have cost: "billing exact_ops (t_release - utc_instant (now_utc t_approve))
                (price_per_hour \<lparr>a_id = 1, a_name = ''Lot1'', price_per_hour = (20::rat)\<rparr>) = 40"
    by code_simp
  have w: "wall_us naive_start = t_approve" by (simp add: naive_start_def)
  note t = completion_cost [where ops = exact_ops and cu = admin_user and bid = 1 and d = active_db
      and b = active_booking and s = "demo_spot 1 ''A-1'' \<lparr>s_status := ''occupied''\<rparr>"
      and a = "\<lparr>a_id = 1, a_name = ''Lot1'', price_per_hour = 20\<rparr>"
      and st = "now_utc t_approve" and now = t_release and e = 4200000000]
  note u = completion_cost [where ops = exact_ops and cu = asha and bid = 1 and d = active_db
      and b = active_booking and s = "demo_spot 1 ''A-1'' \<lparr>s_status := ''occupied''\<rparr>"
      and a = "\<lparr>a_id = 1, a_name = ''Lot1'', price_per_hour = 20\<rparr>"
      and st = naive_start and now = t_release and e = 4200000000]
  from t h1 h2 h3 h4 h5 h6 have c1:
    "find (\<lambda>x. b_id x = 1) (bookings (snd (admin_offline_release exact_ops admin_user t_release 1 active_db)))
     = Some (active_booking\<lparr>b_status := ''completed'', end_time := Some (now_utc t_release),
          total_cost := Some (billing exact_ops (t_release - utc_instant (now_utc t_approve))
             (price_per_hour \<lparr>a_id = 1, a_name = ''Lot1'', price_per_hour = (20::rat)\<rparr>))\<rparr>)"
    by blast
  note v = completion_cost [where ops = exact_ops and cu = asha and bid = 1 and d = active_db
      and b = active_booking and s = "demo_spot 1 ''A-1'' \<lparr>s_status := ''occupied''\<rparr>"
      and a = "\<lparr>a_id = 1, a_name = ''Lot1'', price_per_hour = 20\<rparr>"
      and st = "now_utc t_approve" and now = t_release and e = 4200000000]
  from v h2 h7 h3' h4 h5 h6 have c2:
    "find (\<lambda>x. b_id x = 1) (bookings (snd (user_release exact_ops asha t_release 1 active_db)))
     = Some (active_booking\<lparr>b_status := ''completed'', end_time := Some (now_utc t_release),
          total_cost := Some (billing exact_ops (t_release - utc_instant (now_utc t_approve))
             (price_per_hour \<lparr>a_id = 1, a_name = ''Lot1'', price_per_hour = (20::rat)\<rparr>))\<rparr>)"
    by blast
  from t have "billed_hours exact_ops 4200000000 = max 1 (- ((- 4200000000) div 3600000000))"
    by blast
  then have c3: "billed_hours exact_ops 4200000000 = 2" by simp
  from u h8 have "utc_instant naive_start = wall_us naive_start" by blast
  with w have c4: "utc_instant naive_start = t_approve" by simp
  from c1 c2 c3 c4 show ?thesis unfolding cost by blast
qed

section \<open>Spot selection\<close>










lemma first_available_spot_add_car [simp]:
  "first_available_spot (add_car c d) aid = first_available_spot d aid"
  by (simp add: first_available_spot_def add_car_def)

lemma user_book_success:
  assumes "fst (user_book cu now (Some aid) car_arg d) = Flash ''info''"
  shows "\<exists>spot b. first_available_spot d aid = Some spot
           \<and> snd (user_book cu now (Some aid) car_arg d)
               = add_booking b (set_spot_status (s_id spot) ''reserved'' d)
           \<and> b_spot_id b = s_id spot \<and> b_status b = ''pending''
           \<and> car_arg = Some (b_car_id b)"
  using assms
  by (auto simp: user_book_def Let_def split: if_splits option.splits)

lemma user_book_refused:
  assumes "fst (user_book cu now area_arg car_arg d) \<noteq> Flash ''info''"
  shows "snd (user_book cu now area_arg car_arg d) = d"
  using assms
  by (auto simp: user_book_def Let_def split: if_splits option.splits)

lemma find_or_create_car_session:
  "find_or_create_car plate d = Inr (car, d0) \<Longrightarrow> d0 = d \<or> d0 = add_car car d"
  by (auto simp: find_or_create_car_def Let_def split: option.splits)

lemma find_or_create_car_error:
  "find_or_create_car plate d = Inl r \<Longrightarrow> r = Json False 500"
  by (auto simp: find_or_create_car_def Let_def split: option.splits)

lemma find_area_id: "find (\<lambda>a. Some (a_id a) = Some aid) (areas d) = Some area \<Longrightarrow> a_id area = aid"
  by (auto simp: find_Some_iff)

lemma first_available_spot_session:
  "d0 = d \<or> d0 = add_car car d \<Longrightarrow> first_available_spot d0 aid = first_available_spot d aid"
  by auto

lemma admin_offline_book_success:
  assumes "fst (admin_offline_book cu now plate_arg (Some aid) d) = Json True 200"
  shows "\<exists>spot b car d0. first_available_spot d aid = Some spot
           \<and> (d0 = d \<or> d0 = add_car car d)
           \<and> snd (admin_offline_book cu now plate_arg (Some aid) d)
               = add_booking b (set_spot_status (s_id spot) ''occupied'' d0)
           \<and> b_spot_id b = s_id spot \<and> b_status b = ''active'' \<and> b_car_id b = c_id car"
proof -
  let ?plate = "py_upper (py_strip (case plate_arg of None \<Rightarrow> [] | Some p \<Rightarrow> p))"
  from assms obtain area where area: "find (\<lambda>a. Some (a_id a) = Some aid) (areas d) = Some area"
    by (auto simp: admin_offline_book_def Let_def split: if_splits option.splits)
  then have aid: "a_id area = aid" by (rule find_area_id)
  from assms area obtain car d0 where car: "find_or_create_car ?plate d = Inr (car, d0)"
    by (auto simp: admin_offline_book_def Let_def split: if_splits sum.splits
             dest: find_or_create_car_error)
  then have d0: "d0 = d \<or> d0 = add_car car d" by (rule find_or_create_car_session)
  from assms area car aid obtain spot where spot: "first_available_spot d0 aid = Some spot"
    by (auto simp: admin_offline_book_def Let_def split: if_splits option.splits)
  with d0 have spot': "first_available_spot d aid = Some spot"
    by (simp add: first_available_spot_session)
  let ?b = "\<lparr>b_id = next_id (map b_id (bookings (set_spot_status (s_id spot) ''occupied'' d0))),
             b_user_id = c_user_id car, b_car_id = c_id car, b_spot_id = s_id spot,
             start_time = Some (now_utc now), end_time = None, b_status = ''active'',
             total_cost = None\<rparr>"
  from assms area car aid spot
  have "snd (admin_offline_book cu now plate_arg (Some aid) d)
          = add_booking ?b (set_spot_status (s_id spot) ''occupied'' d0)"
    by (auto simp: admin_offline_book_def Let_def split: if_splits option.splits)
  with spot' d0 show ?thesis by force
qed

lemma admin_offline_book_refused:
  assumes "fst (admin_offline_book cu now plate_arg area_arg d) \<noteq> Json True 200"
  shows "snd (admin_offline_book cu now plate_arg area_arg d) = d"
  using assms
  by (auto simp: admin_offline_book_def Let_def split: if_splits option.splits sum.splits)

lemma admin_offline_book_no_spot:
  assumes "first_available_spot d aid = None"
  shows "snd (admin_offline_book cu now plate_arg (Some aid) d) = d"
proof -
  have "fst (admin_offline_book cu now plate_arg (Some aid) d) \<noteq> Json True 200"
    using admin_offline_book_success [of cu now plate_arg aid d] assms by auto
  then show ?thesis by (rule admin_offline_book_refused)
qed

lemma user_book_no_spot:
  assumes "first_available_spot d aid = None"
  shows "snd (user_book cu now (Some aid) car_arg d) = d"
proof -
  have "fst (user_book cu now (Some aid) car_arg d) \<noteq> Flash ''info''"
    using user_book_success [of cu now aid car_arg d] assms by auto
  then show ?thesis by (rule user_book_refused)
qed




section \<open>Refused requests and complete changes\<close>

lemma approve_guard:
  "find (\<lambda>x. b_id x = bid) (bookings d) = Some b \<Longrightarrow> b_status b \<noteq> ''pending'' \<Longrightarrow>
   snd (admin_request_approve cu now bid d) = d"
  by (simp add: admin_request_approve_def)

lemma reject_guard:
  "find (\<lambda>x. b_id x = bid) (bookings d) = Some b \<Longrightarrow> b_status b \<noteq> ''pending'' \<Longrightarrow>
   snd (admin_request_reject cu bid d) = d"
  by (simp add: admin_request_reject_def)

lemma cancel_guard:
  "find (\<lambda>x. b_id x = bid) (bookings d) = Some b \<Longrightarrow> b_status b \<noteq> ''pending'' \<Longrightarrow>
   snd (user_cancel_pending cu bid d) = d"
  by (simp add: user_cancel_pending_def)

lemma admin_release_guard:
  "find (\<lambda>x. b_id x = bid) (bookings d) = Some b \<Longrightarrow> b_status b \<noteq> ''active'' \<Longrightarrow>
   snd (admin_offline_release ops cu now bid d) = d"
  by (simp add: admin_offline_release_def)

lemma user_release_guard:
  "find (\<lambda>x. b_id x = bid) (bookings d) = Some b \<Longrightarrow> b_status b = ''completed'' \<Longrightarrow>
   snd (user_release ops cu now bid d) = d"
  by (simp add: user_release_def)

lemma user_book_existing:
  "existing_for_car d cid \<noteq> None \<Longrightarrow> snd (user_book cu now area_arg (Some cid) d) = d"
  by (auto simp: user_book_def split: option.splits)

lemma approve_applies:
  assumes "snd (admin_request_approve cu now bid d) \<noteq> d"
  shows "\<exists>b. find (\<lambda>x. b_id x = bid) (bookings d) = Some b \<and> b_status b = ''pending''
           \<and> snd (admin_request_approve cu now bid d) =
               (case booking_spot d b of
                  Some s \<Rightarrow> set_spot_status (s_id s) ''occupied''
                              (put_booking (b\<lparr>b_status := ''active'', start_time := Some (now_utc now)\<rparr>) d)
                | None \<Rightarrow> put_booking (b\<lparr>b_status := ''active'', start_time := Some (now_utc now)\<rparr>) d)"
  using assms
  by (auto simp: admin_request_approve_def Let_def split: if_splits option.splits)

lemma reject_applies:
  assumes "snd (admin_request_reject cu bid d) \<noteq> d"
  shows "\<exists>b. find (\<lambda>x. b_id x = bid) (bookings d) = Some b \<and> b_status b = ''pending''
           \<and> snd (admin_request_reject cu bid d) =
               (case booking_spot d b of
                  Some s \<Rightarrow> put_booking (b\<lparr>b_status := ''rejected''\<rparr>)
                              (set_spot_status (s_id s) ''available'' d)
                | None \<Rightarrow> put_booking (b\<lparr>b_status := ''rejected''\<rparr>) d)"
  using assms
  by (auto simp: admin_request_reject_def reject_pending_def Let_def split: if_splits option.splits)

lemma cancel_applies:
  assumes "snd (user_cancel_pending cu bid d) \<noteq> d"
  shows "\<exists>b. find (\<lambda>x. b_id x = bid) (bookings d) = Some b \<and> b_status b = ''pending''
           \<and> snd (user_cancel_pending cu bid d) =
               (case booking_spot d b of
                  Some s \<Rightarrow> put_booking (b\<lparr>b_status := ''rejected''\<rparr>)
                              (set_spot_status (s_id s) ''available'' d)
                | None \<Rightarrow> put_booking (b\<lparr>b_status := ''rejected''\<rparr>) d)"
  using assms
  by (auto simp: user_cancel_pending_def reject_pending_def Let_def split: if_splits option.splits)

lemma complete_booking_applies:
  assumes "complete_booking ops now b d = Inr d'" and "b_status b \<noteq> ''completed''"
    and "booking_spot d b = Some s"
  shows "\<exists>cost. d' = put_booking
                       (b\<lparr>b_status := ''completed'', end_time := Some (now_utc now),
                          total_cost := cost\<rparr>)
                       (set_spot_status (s_id s) ''available'' d)"
proof (cases "start_time b")
  case None
  with assms have "d' = put_booking (b\<lparr>b_status := ''completed'', end_time := Some (now_utc now)\<rparr>)
                       (set_spot_status (s_id s) ''available'' d)"
    by (simp add: complete_booking_def Let_def normalise_start_def)
  then have "d' = put_booking
                       (b\<lparr>b_status := ''completed'', end_time := Some (now_utc now),
                          total_cost := total_cost b\<rparr>)
                       (set_spot_status (s_id s) ''available'' d)"
    by simp
  then show ?thesis by blast
next
  case (Some st)
  obtain st' where n: "normalise_start (Some st) = Some st'"
    using normalise_start_Some by blast
  with assms(1,2,3) Some obtain a where a: "spot_parking_area d s = Some a"
    by (cases "spot_parking_area d s") (simp_all add: complete_booking_def Let_def)
  from complete_booking_cost [OF assms(2,3) a Some, of ops now] assms(1)
  show ?thesis by auto
qed

lemma admin_release_applies:
  assumes "snd (admin_offline_release ops cu now bid d) \<noteq> d"
  shows "\<exists>b. find (\<lambda>x. b_id x = bid) (bookings d) = Some b \<and> b_status b = ''active''
           \<and> complete_booking ops now b d = Inr (snd (admin_offline_release ops cu now bid d))"
  using assms
  by (auto simp: admin_offline_release_def split: if_splits option.splits sum.splits)

lemma user_release_applies:
  assumes "snd (user_release ops cu now bid d) \<noteq> d"
  shows "\<exists>b. find (\<lambda>x. b_id x = bid) (bookings d) = Some b \<and> b_status b \<noteq> ''completed''
           \<and> b_user_id b = u_id cu
           \<and> (\<forall>s st. booking_spot d b = Some s \<and> start_time b = Some st \<longrightarrow>
                (\<exists>cost. snd (user_release ops cu now bid d) =
                   put_booking
                     (b\<lparr>b_status := ''completed'', end_time := Some (now_utc now),
                        total_cost := cost\<rparr>)
                     (set_spot_status (s_id s) ''available'' d)))"
proof -
  from assms obtain b where b: "find (\<lambda>x. b_id x = bid) (bookings d) = Some b"
    and st: "b_status b \<noteq> ''completed''" and own: "b_user_id b = u_id cu"
    by (auto simp: user_release_def split: if_splits option.splits)
  have "\<exists>cost. snd (user_release ops cu now bid d) =
                   put_booking
                     (b\<lparr>b_status := ''completed'', end_time := Some (now_utc now),
                        total_cost := cost\<rparr>)
                     (set_spot_status (s_id s) ''available'' d)"
    if s: "booking_spot d b = Some s" and t: "start_time b = Some t" for s t
  proof (cases "spot_parking_area d s")
    case None
    obtain t' where "normalise_start (Some t) = Some t'"
      using normalise_start_Some by blast
    with b st own s t None have "snd (user_release ops cu now bid d) = d"
      by (simp add: user_release_def Let_def)
    with assms show ?thesis by simp
  next
    case (Some a)
    from user_release_cost [OF b own st s Some t] show ?thesis by blast
  qed
  with b st own show ?thesis by blast
qed

text \<open>
  What the checks the handlers make do guarantee. A booking request, by a user or
  offline, that finds no available spot in the area leaves the stored tables as they
  were: no booking, no car (the car the offline path adds to the session is not stored)
  and no spot is written. The same holds where a handler refuses: a car that already has
  an active or pending booking, any other refusal of the two booking handlers, approval,
  rejection or cancellation of a booking that is not pending, the administrator's
  release of a booking that is not active, and the owner's release of a completed
  booking, the one status \<open>user_release\<close> looks for. A handler that changes the tables
  writes the booking and calls the spot update in the same commit.
\<close>

lemma refusals_change_nothing:
  "(first_available_spot d aid = None \<longrightarrow>
        snd (user_book cu now (Some aid) car_arg d) = d
      \<and> snd (admin_offline_book cu now plate_arg (Some aid) d) = d)
   \<and> (existing_for_car d cid \<noteq> None \<longrightarrow> snd (user_book cu now area_arg (Some cid) d) = d)
   \<and> (fst (user_book cu now area_arg car_arg d) \<noteq> Flash ''info'' \<longrightarrow>
        snd (user_book cu now area_arg car_arg d) = d)
   \<and> (fst (admin_offline_book cu now plate_arg area_arg d) \<noteq> Json True 200 \<longrightarrow>
        snd (admin_offline_book cu now plate_arg area_arg d) = d)
   \<and> (find (\<lambda>x. b_id x = bid) (bookings d) = Some b \<and> b_status b \<noteq> ''pending'' \<longrightarrow>
        snd (admin_request_approve cu now bid d) = d
      \<and> snd (admin_request_reject cu bid d) = d
      \<and> snd (user_cancel_pending cu bid d) = d)
   \<and> (find (\<lambda>x. b_id x = bid) (bookings d) = Some b \<and> b_status b \<noteq> ''active'' \<longrightarrow>
        snd (admin_offline_release ops cu now bid d) = d)
   \<and> (find (\<lambda>x. b_id x = bid) (bookings d) = Some b \<and> b_status b = ''completed'' \<longrightarrow>
        snd (user_release ops cu now bid d) = d)
   \<and> (fst (user_book cu now (Some aid) car_arg d) = Flash ''info'' \<longrightarrow>
        (\<exists>(spot::parking_spot) nb. snd (user_book cu now (Some aid) car_arg d)
                      = add_booking nb (set_spot_status (s_id spot) ''reserved'' d)
           \<and> b_spot_id nb = s_id spot \<and> b_status nb = ''pending''))
   \<and> (fst (admin_offline_book cu now plate_arg (Some aid) d) = Json True 200 \<longrightarrow>
        (\<exists>(spot::parking_spot) nb car d0. (d0 = d \<or> d0 = add_car car d)
           \<and> snd (admin_offline_book cu now plate_arg (Some aid) d)
               = add_booking nb (set_spot_status (s_id spot) ''occupied'' d0)
           \<and> b_spot_id nb = s_id spot \<and> b_status nb = ''active'' \<and> b_car_id nb = c_id car))
   \<and> (snd (admin_request_approve cu now bid d) \<noteq> d \<longrightarrow>
        (\<exists>pb. find (\<lambda>x. b_id x = bid) (bookings d) = Some pb \<and> b_status pb = ''pending''
           \<and> snd (admin_request_approve cu now bid d) =
               (case booking_spot d pb of
                  Some s \<Rightarrow> set_spot_status (s_id s) ''occupied''
                              (put_booking (pb\<lparr>b_status := ''active'', start_time := Some (now_utc now)\<rparr>) d)
                | None \<Rightarrow> put_booking (pb\<lparr>b_status := ''active'', start_time := Some (now_utc now)\<rparr>) d)))
   \<and> (snd (admin_request_reject cu bid d) \<noteq> d \<longrightarrow>
        (\<exists>pb. find (\<lambda>x. b_id x = bid) (bookings d) = Some pb \<and> b_status pb = ''pending''
           \<and> snd (admin_request_reject cu bid d) =
               (case booking_spot d pb of
                  Some s \<Rightarrow> put_booking (pb\<lparr>b_status := ''rejected''\<rparr>)
                              (set_spot_status (s_id s) ''available'' d)
                | None \<Rightarrow> put_booking (pb\<lparr>b_status := ''rejected''\<rparr>) d)))
   \<and> (snd (user_cancel_pending cu bid d) \<noteq> d \<longrightarrow>
        (\<exists>pb. find (\<lambda>x. b_id x = bid) (bookings d) = Some pb \<and> b_status pb = ''pending''
           \<and> snd (user_cancel_pending cu bid d) =
               (case booking_spot d pb of
                  Some s \<Rightarrow> put_booking (pb\<lparr>b_status := ''rejected''\<rparr>)
                              (set_spot_status (s_id s) ''available'' d)
                | None \<Rightarrow> put_booking (pb\<lparr>b_status := ''rejected''\<rparr>) d)))
   \<and> (snd (admin_offline_release ops cu now bid d) \<noteq> d \<longrightarrow>
        (\<exists>ab. find (\<lambda>x. b_id x = bid) (bookings d) = Some ab \<and> b_status ab = ''active''
           \<and> (\<forall>s. booking_spot d ab = Some s \<longrightarrow>
                (\<exists>cost. snd (admin_offline_release ops cu now bid d) =
                   put_booking
                     (ab\<lparr>b_status := ''completed'', end_time := Some (now_utc now),
                         total_cost := cost\<rparr>)
                     (set_spot_status (s_id s) ''available'' d)))))
   \<and> (snd (user_release ops cu now bid d) \<noteq> d \<longrightarrow>
        (\<exists>rb. find (\<lambda>x. b_id x = bid) (bookings d) = Some rb \<and> b_status rb \<noteq> ''completed''
           \<and> b_user_id rb = u_id cu
           \<and> (\<forall>s st. booking_spot d rb = Some s \<and> start_time rb = Some st \<longrightarrow>
                (\<exists>cost. snd (user_release ops cu now bid d) =
                   put_booking
                     (rb\<lparr>b_status := ''completed'', end_time := Some (now_utc now),
                         total_cost := cost\<rparr>)
                     (set_spot_status (s_id s) ''available'' d)))))"
proof -
  have 1: "first_available_spot d aid = None \<longrightarrow>
        snd (user_book cu now (Some aid) car_arg d) = d
      \<and> snd (admin_offline_book cu now plate_arg (Some aid) d) = d"
    by (simp add: user_book_no_spot admin_offline_book_no_spot)
  have 2: "existing_for_car d cid \<noteq> None \<longrightarrow> snd (user_book cu now area_arg (Some cid) d) = d"
    using user_book_existing by blast
  have 3: "fst (user_book cu now area_arg car_arg d) \<noteq> Flash ''info'' \<longrightarrow>
        snd (user_book cu now area_arg car_arg d) = d"
    using user_book_refused by blast
  have 4: "fst (admin_offline_book cu now plate_arg area_arg d) \<noteq> Json True 200 \<longrightarrow>
        snd (admin_offline_book cu now plate_arg area_arg d) = d"
    using admin_offline_book_refused by blast
  have 5: "find (\<lambda>x. b_id x = bid) (bookings d) = Some b \<and> b_status b \<noteq> ''pending'' \<longrightarrow>
        snd (admin_request_approve cu now bid d) = d
      \<and> snd (admin_request_reject cu bid d) = d
      \<and> snd (user_cancel_pending cu bid d) = d"
    by (simp add: approve_guard reject_guard cancel_guard)
  have 6: "find (\<lambda>x. b_id x = bid) (bookings d) = Some b \<and> b_status b \<noteq> ''active'' \<longrightarrow>
        snd (admin_offline_release ops cu now bid d) = d"
    by (simp add: admin_release_guard)
  have 7: "find (\<lambda>x. b_id x = bid) (bookings d) = Some b \<and> b_status b = ''completed'' \<longrightarrow>
        snd (user_release ops cu now bid d) = d"
    by (simp add: user_release_guard)
  have 8: "fst (user_book cu now (Some aid) car_arg d) = Flash ''info'' \<longrightarrow>
        (\<exists>(spot::parking_spot) nb. snd (user_book cu now (Some aid) car_arg d)
                      = add_booking nb (set_spot_status (s_id spot) ''reserved'' d)
           \<and> b_spot_id nb = s_id spot \<and> b_status nb = ''pending'')"
  proof
    assume "fst (user_book cu now (Some aid) car_arg d) = Flash ''info''"
    from user_book_success [OF this] obtain spot :: parking_spot and nb
      where "snd (user_book cu now (Some aid) car_arg d)
               = add_booking nb (set_spot_status (s_id spot) ''reserved'' d)"
        and "b_spot_id nb = s_id spot" and "b_status nb = ''pending''"
      by blast
    then show "\<exists>(spot::parking_spot) nb. snd (user_book cu now (Some aid) car_arg d)
                      = add_booking nb (set_spot_status (s_id spot) ''reserved'' d)
           \<and> b_spot_id nb = s_id spot \<and> b_status nb = ''pending''"
      by blast
  qed
  have 9: "fst (admin_offline_book cu now plate_arg (Some aid) d) = Json True 200 \<longrightarrow>
        (\<exists>(spot::parking_spot) nb car d0. (d0 = d \<or> d0 = add_car car d)
           \<and> snd (admin_offline_book cu now plate_arg (Some aid) d)
               = add_booking nb (set_spot_status (s_id spot) ''occupied'' d0)
           \<and> b_spot_id nb = s_id spot \<and> b_status nb = ''active'' \<and> b_car_id nb = c_id car)"
  proof
    assume "fst (admin_offline_book cu now plate_arg (Some aid) d) = Json True 200"
    from admin_offline_book_success [OF this] obtain spot :: parking_spot and nb car d0
      where "d0 = d \<or> d0 = add_car car d"
        and "snd (admin_offline_book cu now plate_arg (Some aid) d)
               = add_booking nb (set_spot_status (s_id spot) ''occupied'' d0)"
        and "b_spot_id nb = s_id spot" and "b_status nb = ''active''" and "b_car_id nb = c_id car"
      by blast
    then show "\<exists>(spot::parking_spot) nb car d0. (d0 = d \<or> d0 = add_car car d)
           \<and> snd (admin_offline_book cu now plate_arg (Some aid) d)
               = add_booking nb (set_spot_status (s_id spot) ''occupied'' d0)
           \<and> b_spot_id nb = s_id spot \<and> b_status nb = ''active'' \<and> b_car_id nb = c_id car"
      by blast
  qed
  have 10: "snd (admin_request_approve cu now bid d) \<noteq> d \<longrightarrow>
        (\<exists>pb. find (\<lambda>x. b_id x = bid) (bookings d) = Some pb \<and> b_status pb = ''pending''
           \<and> snd (admin_request_approve cu now bid d) =
               (case booking_spot d pb of
                  Some s \<Rightarrow> set_spot_status (s_id s) ''occupied''
                              (put_booking (pb\<lparr>b_status := ''active'', start_time := Some (now_utc now)\<rparr>) d)
                | None \<Rightarrow> put_booking (pb\<lparr>b_status := ''active'', start_time := Some (now_utc now)\<rparr>) d))"
    using approve_applies by blast
  have 11: "snd (admin_request_reject cu bid d) \<noteq> d \<longrightarrow>
        (\<exists>pb. find (\<lambda>x. b_id x = bid) (bookings d) = Some pb \<and> b_status pb = ''pending''
           \<and> snd (admin_request_reject cu bid d) =
               (case booking_spot d pb of
                  Some s \<Rightarrow> put_booking (pb\<lparr>b_status := ''rejected''\<rparr>)
                              (set_spot_status (s_id s) ''available'' d)
                | None \<Rightarrow> put_booking (pb\<lparr>b_status := ''rejected''\<rparr>) d))"
    using reject_applies by blast
  have 12: "snd (user_cancel_pending cu bid d) \<noteq> d \<longrightarrow>
        (\<exists>pb. find (\<lambda>x. b_id x = bid) (bookings d) = Some pb \<and> b_status pb = ''pending''
           \<and> snd (user_cancel_pending cu bid d) =
               (case booking_spot d pb of
                  Some s \<Rightarrow> put_booking (pb\<lparr>b_status := ''rejected''\<rparr>)
                              (set_spot_status (s_id s) ''available'' d)
                | None \<Rightarrow> put_booking (pb\<lparr>b_status := ''rejected''\<rparr>) d))"
    using cancel_applies by blast
  have 13: "snd (admin_offline_release ops cu now bid d) \<noteq> d \<longrightarrow>
        (\<exists>ab. find (\<lambda>x. b_id x = bid) (bookings d) = Some ab \<and> b_status ab = ''active''
           \<and> (\<forall>s. booking_spot d ab = Some s \<longrightarrow>
                (\<exists>cost. snd (admin_offline_release ops cu now bid d) =
                   put_booking
                     (ab\<lparr>b_status := ''completed'', end_time := Some (now_utc now),
                         total_cost := cost\<rparr>)
                     (set_spot_status (s_id s) ''available'' d))))"
  proof
    assume "snd (admin_offline_release ops cu now bid d) \<noteq> d"
    from admin_release_applies [OF this] obtain ab
      where ab: "find (\<lambda>x. b_id x = bid) (bookings d) = Some ab" "b_status ab = ''active''"
        "complete_booking ops now ab d = Inr (snd (admin_offline_release ops cu now bid d))"
      by blast
    from ab(2) have nc: "b_status ab \<noteq> ''completed''" by simp
    from complete_booking_applies [OF ab(3) nc] ab(1,2)
    show "\<exists>ab. find (\<lambda>x. b_id x = bid) (bookings d) = Some ab \<and> b_status ab = ''active''
           \<and> (\<forall>s. booking_spot d ab = Some s \<longrightarrow>
                (\<exists>cost. snd (admin_offline_release ops cu now bid d) =
                   put_booking
                     (ab\<lparr>b_status := ''completed'', end_time := Some (now_utc now),
                         total_cost := cost\<rparr>)
                     (set_spot_status (s_id s) ''available'' d)))"
      by blast
  qed
  have 14: "snd (user_release ops cu now bid d) \<noteq> d \<longrightarrow>
        (\<exists>rb. find (\<lambda>x. b_id x = bid) (bookings d) = Some rb \<and> b_status rb \<noteq> ''completed''
           \<and> b_user_id rb = u_id cu
           \<and> (\<forall>s st. booking_spot d rb = Some s \<and> start_time rb = Some st \<longrightarrow>
                (\<exists>cost. snd (user_release ops cu now bid d) =
                   put_booking
                     (rb\<lparr>b_status := ''completed'', end_time := Some (now_utc now),
                         total_cost := cost\<rparr>)
                     (set_spot_status (s_id s) ''available'' d))))"
    using user_release_applies by blast
  from 1 2 3 4 5 6 7 8 9 10 11 12 13 14 show ?thesis by (intro conjI)
qed

text \<open>
  With every spot taken both booking handlers leave the tables alone; so do a second
  approval, a rejection and a cancellation of the active booking, a second release of
  the completed booking, and a second request for the car of a pending booking. Where
  the handlers of the scenario accept, they change the tables, and the change is the
  whole one.
\<close>

lemma refusals_change_nothing_example:
  "first_available_spot full_db 1 = None
   \<and> snd (user_book asha t0 (Some 1) (Some 1) full_db) = full_db
   \<and> snd (admin_offline_book admin_user t0 (Some ''dl 3c 0001'') (Some 1) full_db) = full_db
   \<and> find (\<lambda>x. b_id x = 1) (bookings active_db) = Some active_booking
   \<and> snd (admin_request_approve admin_user t_release 1 active_db) = active_db
   \<and> snd (admin_request_reject admin_user 1 active_db) = active_db
   \<and> snd (user_cancel_pending asha 1 active_db) = active_db
   \<and> find (\<lambda>x. b_id x = 1) (bookings released_db) = Some completed_booking
   \<and> snd (admin_offline_release exact_ops admin_user t_release 1 released_db) = released_db
   \<and> snd (user_release exact_ops asha t_release 1 released_db) = released_db
   \<and> existing_for_car pending_db 1 = Some pending_booking
   \<and> snd (user_book asha t_approve (Some 1) (Some 1) pending_db) = pending_db
   \<and> fst (user_book asha t0 (Some 1) (Some 1) demo_db) = Flash ''info''
   \<and> (\<exists>(spot::parking_spot) nb.
          snd (user_book asha t0 (Some 1) (Some 1) demo_db)
            = add_booking nb (set_spot_status (s_id spot) ''reserved'' demo_db)
          \<and> b_spot_id nb = s_id spot \<and> b_status nb = ''pending'')
   \<and> fst (admin_offline_book admin_user t0 (Some ''dl 3c 0001'') (Some 1) demo_db) = Json True 200
   \<and> (\<exists>(spot::parking_spot) nb car d0. (d0 = demo_db \<or> d0 = add_car car demo_db)
          \<and> snd (admin_offline_book admin_user t0 (Some ''dl 3c 0001'') (Some 1) demo_db)
              = add_booking nb (set_spot_status (s_id spot) ''occupied'' d0)
          \<and> b_spot_id nb = s_id spot \<and> b_status nb = ''active'' \<and> b_car_id nb = c_id car)
   \<and> snd (admin_request_approve admin_user t_approve 1 pending_db) \<noteq> pending_db
   \<and> (\<exists>pb. find (\<lambda>x. b_id x = 1) (bookings pending_db) = Some pb \<and> b_status pb = ''pending''
          \<and> snd (admin_request_approve admin_user t_approve 1 pending_db) =
              (case booking_spot pending_db pb of
                 Some s \<Rightarrow> set_spot_status (s_id s) ''occupied''
                             (put_booking (pb\<lparr>b_status := ''active'',
                                              start_time := Some (now_utc t_approve)\<rparr>) pending_db)
               | None \<Rightarrow> put_booking (pb\<lparr>b_status := ''active'',
                                            start_time := Some (now_utc t_approve)\<rparr>) pending_db))
   \<and> snd (admin_request_reject admin_user 1 pending_db) \<noteq> pending_db
   \<and> (\<exists>pb. find (\<lambda>x. b_id x = 1) (bookings pending_db) = Some pb \<and> b_status pb = ''pending''
          \<and> snd (admin_request_reject admin_user 1 pending_db) =
              (case booking_spot pending_db pb of
                 Some s \<Rightarrow> put_booking (pb\<lparr>b_status := ''rejected''\<rparr>)
                             (set_spot_status (s_id s) ''available'' pending_db)
               | None \<Rightarrow> put_booking (pb\<lparr>b_status := ''rejected''\<rparr>) pending_db))
   \<and> snd (user_cancel_pending asha 1 pending_db) \<noteq> pending_db
   \<and> (\<exists>pb. find (\<lambda>x. b_id x = 1) (bookings pending_db) = Some pb \<and> b_status pb = ''pending''
          \<and> snd (user_cancel_pending asha 1 pending_db) =
              (case booking_spot pending_db pb of
                 Some s \<Rightarrow> put_booking (pb\<lparr>b_status := ''rejected''\<rparr>)
                             (set_spot_status (s_id s) ''available'' pending_db)
               | None \<Rightarrow> put_booking (pb\<lparr>b_status := ''rejected''\<rparr>) pending_db))
   \<and> snd (admin_offline_release exact_ops admin_user t_release 1 active_db) \<noteq> active_db
   \<and> (\<exists>ab. find (\<lambda>x. b_id x = 1) (bookings active_db) = Some ab \<and> b_status ab = ''active''
          \<and> (\<forall>s. booking_spot active_db ab = Some s \<longrightarrow>
               (\<exists>cost. snd (admin_offline_release exact_ops admin_user t_release 1 active_db) =
                  put_booking
                    (ab\<lparr>b_status := ''completed'', end_time := Some (now_utc t_release),
                        total_cost := cost\<rparr>)
                    (set_spot_status (s_id s) ''available'' active_db))))
   \<and> snd (user_release exact_ops asha t_release 1 active_db) \<noteq> active_db
   \<and> (\<exists>rb. find (\<lambda>x. b_id x = 1) (bookings active_db) = Some rb
          \<and> b_status rb \<noteq> ''completed'' \<and> b_user_id rb = u_id asha
          \<and> (\<forall>s st. booking_spot active_db rb = Some s \<and> start_time rb = Some st \<longrightarrow>
               (\<exists>cost. snd (user_release exact_ops asha t_release 1 active_db) =
                  put_booking
                    (rb\<lparr>b_status := ''completed'', end_time := Some (now_utc t_release),
                        total_cost := cost\<rparr>)
                    (set_spot_status (s_id s) ''available'' active_db))))"
proof -
  have h1: "first_available_spot full_db 1 = None" by code_simp
  have h2: "find (\<lambda>x. b_id x = 1) (bookings active_db) = Some active_booking" by code_simp
  have h3: "b_status active_booking \<noteq> ''pending''" by code_simp
  have h4: "find (\<lambda>x. b_id x = 1) (bookings released_db) = Some completed_booking" by code_simp
  have h5: "b_status completed_booking \<noteq> ''active''" by code_simp
  have h6: "b_status completed_booking = ''completed''" by code_simp
  have h7: "existing_for_car pending_db 1 = Some pending_booking" by code_simp
  have h8: "fst (user_book asha t0 (Some 1) (Some 1) demo_db) = Flash ''info''" by code_simp
  have h9: "fst (admin_offline_book admin_user t0 (Some ''dl 3c 0001'') (Some 1) demo_db)
              = Json True 200"
    by code_simp
  have h10: "snd (admin_request_approve admin_user t_approve 1 pending_db) \<noteq> pending_db"
    by code_simp
  have h11: "snd (admin_request_reject admin_user 1 pending_db) \<noteq> pending_db" by code_simp
  have h12: "snd (user_cancel_pending asha 1 pending_db) \<noteq> pending_db" by code_simp
  have h13: "snd (admin_offline_release exact_ops admin_user t_release 1 active_db) \<noteq> active_db"
    by code_simp
  have h14: "snd (user_release exact_ops asha t_release 1 active_db) \<noteq> active_db"
    by code_simp
  note a = refusals_change_nothing [where d = full_db and aid = 1 and cu = asha and now = t0
      and car_arg = "Some 1"]
  note b = refusals_change_nothing [where d = full_db and aid = 1 and cu = admin_user and now = t0
      and plate_arg = "Some ''dl 3c 0001''"]
  note c = refusals_change_nothing [where d = active_db and bid = 1 and b = active_booking
      and cu = admin_user and now = t_release and ops = exact_ops]
  note c' = refusals_change_nothing [where d = active_db and bid = 1 and b = active_booking
      and cu = asha and now = t_release and ops = exact_ops]
  note e = refusals_change_nothing [where d = released_db and bid = 1 and b = completed_booking
      and cu = admin_user and now = t_release and ops = exact_ops]
  note f = refusals_change_nothing [where d = released_db and bid = 1 and b = completed_booking
      and cu = asha and now = t_release and ops = exact_ops]
  note g = refusals_change_nothing [where d = pending_db and cid = 1 and cu = asha and now = t_approve
      and area_arg = "Some 1" and bid = 1]
  note g' = refusals_change_nothing [where d = pending_db and cu = admin_user and now = t_approve
      and bid = 1]
  note i = refusals_change_nothing [where d = demo_db and aid = 1 and cu = asha and now = t0
      and car_arg = "Some 1"]
  note j = refusals_change_nothing [where d = demo_db and aid = 1 and cu = admin_user and now = t0
      and plate_arg = "Some ''dl 3c 0001''"]
  from a h1 have c1: "snd (user_book asha t0 (Some 1) (Some 1) full_db) = full_db" by blast
  from b h1 have c2:
    "snd (admin_offline_book admin_user t0 (Some ''dl 3c 0001'') (Some 1) full_db) = full_db"
    by blast
  from c h2 h3 have c3: "snd (admin_request_approve admin_user t_release 1 active_db) = active_db"
    and c4: "snd (admin_request_reject admin_user 1 active_db) = active_db"
    by blast+
  from c' h2 h3 have c5: "snd (user_cancel_pending asha 1 active_db) = active_db" by blast
  from e h4 h5 have c6:
    "snd (admin_offline_release exact_ops admin_user t_release 1 released_db) = released_db"
    by blast
  from f h4 h6 have c7: "snd (user_release exact_ops asha t_release 1 released_db) = released_db"
    by blast
  from h7 have "existing_for_car pending_db 1 \<noteq> None" by simp
  with g have c8: "snd (user_book asha t_approve (Some 1) (Some 1) pending_db) = pending_db"
    by blast
  note c9 = i [THEN conjunct2, THEN conjunct2, THEN conjunct2, THEN conjunct2, THEN conjunct2,
      THEN conjunct2, THEN conjunct2, THEN conjunct1, rule_format, OF h8]
  note c10 = j [THEN conjunct2, THEN conjunct2, THEN conjunct2, THEN conjunct2, THEN conjunct2,
      THEN conjunct2, THEN conjunct2, THEN conjunct2, THEN conjunct1, rule_format, OF h9]
  note c11 = g' [THEN conjunct2, THEN conjunct2, THEN conjunct2, THEN conjunct2, THEN conjunct2,
      THEN conjunct2, THEN conjunct2, THEN conjunct2, THEN conjunct2, THEN conjunct1,
      rule_format, OF h10]
  note c12 = g' [THEN conjunct2, THEN conjunct2, THEN conjunct2, THEN conjunct2, THEN conjunct2,
      THEN conjunct2, THEN conjunct2, THEN conjunct2, THEN conjunct2, THEN conjunct2,
      THEN conjunct1, rule_format, OF h11]
  note c13 = g [THEN conjunct2, THEN conjunct2, THEN conjunct2, THEN conjunct2, THEN conjunct2,
      THEN conjunct2, THEN conjunct2, THEN conjunct2, THEN conjunct2, THEN conjunct2,
      THEN conjunct2, THEN conjunct1, rule_format, OF h12]
  note c14 = c [THEN conjunct2, THEN conjunct2, THEN conjunct2, THEN conjunct2, THEN conjunct2,
      THEN conjunct2, THEN conjunct2, THEN conjunct2, THEN conjunct2, THEN conjunct2,
      THEN conjunct2, THEN conjunct2, THEN conjunct1, THEN mp, OF h13]
  note c15 = c' [THEN conjunct2, THEN conjunct2, THEN conjunct2, THEN conjunct2, THEN conjunct2,
      THEN conjunct2, THEN conjunct2, THEN conjunct2, THEN conjunct2, THEN conjunct2,
      THEN conjunct2, THEN conjunct2, THEN conjunct2, THEN mp, OF h14]
  show ?thesis
    by (intro conjI h1 c1 c2 h2 c3 c4 c5 h4 c6 c7 h7 c8 h8 c9 h9 c10 h10 c11 h11 c12 h12 c13
          h13 c14 h14 c15)
qed

section \<open>Inputs on which the code leaves the specification\<close>

text \<open>
  Claim C3, at an input where the code departs from it. The owner releases a booking
  that is pending, not active: \<open>user_release\<close> refuses completed bookings only, so the
  booking is completed and billed one hour and the reserved spot is freed. On the same
  booking \<open>admin_offline_release\<close>, whose guard is \<open>status != 'active'\<close>, refuses and
  changes nothing.
\<close>

theorem user_release_of_pending:
  "bookings pending_db = [pending_booking]
   \<and> b_status pending_booking = ''pending''
   \<and> b_user_id pending_booking = u_id asha
   \<and> fst early_release = Flash ''success''
   \<and> bookings (snd early_release)
       = [pending_booking\<lparr>b_status := ''completed'', end_time := Some (now_utc t_approve),
                           total_cost := Some 20\<rparr>]
   \<and> map s_status (spots pending_db) ! 0 = ''reserved''
   \<and> map s_status (spots (snd early_release)) ! 0 = ''available''
   \<and> admin_offline_release exact_ops admin_user t_approve 1 pending_db
       = (Flash ''warning'', pending_db)"
proof -
  have 1: "bookings pending_db = [pending_booking]" by code_simp
  have 2: "b_status pending_booking = ''pending''" by code_simp
  have 3: "b_user_id pending_booking = u_id asha" by code_simp
  have 4: "fst early_release = Flash ''success''" by code_simp
  have 5: "bookings (snd early_release)
       = [pending_booking\<lparr>b_status := ''completed'', end_time := Some (now_utc t_approve),
                           total_cost := Some 20\<rparr>]"
    by code_simp
  have 6: "map s_status (spots pending_db) ! 0 = ''reserved''" by code_simp
  have 7: "map s_status (spots (snd early_release)) ! 0 = ''available''" by code_simp
  have 8: "admin_offline_release exact_ops admin_user t_approve 1 pending_db
       = (Flash ''warning'', pending_db)"
    by code_simp
  from 1 2 3 4 5 6 7 8 show ?thesis by blast
qed

text \<open>
  Claim C6, at inputs where the code departs from it. The owner releases a booking that
  was rejected: the precondition of a release, an active booking, fails, yet
  \<open>user_release\<close> does not refuse: the booking is stored as completed with an end
  time and a cost of one hour. \<open>admin_offline_release\<close> refuses the same booking and
  changes nothing. And a lifecycle change that is applied in part:
  \<open>BookingListAPI.post\<close> stores a pending booking on spot 1 and leaves the spot
  available, where \<open>user_book\<close> stores the pending booking and reserves the spot.
\<close>

theorem release_of_rejected_and_pending_import:
  "bookings after_reject = [pending_booking\<lparr>b_status := ''rejected''\<rparr>]
   \<and> b_user_id pending_booking = u_id asha
   \<and> fst rejected_release = Flash ''success''
   \<and> bookings (snd rejected_release)
       = [pending_booking\<lparr>b_status := ''completed'', end_time := Some (now_utc t_approve),
                           total_cost := Some 20\<rparr>]
   \<and> snd rejected_release \<noteq> after_reject
   \<and> admin_offline_release exact_ops admin_user t_approve 1 after_reject
       = (Flash ''warning'', after_reject)
   \<and> fst pending_import = Rest 201
   \<and> map b_status (bookings (snd pending_import)) = [''pending'']
   \<and> map b_spot_id (bookings (snd pending_import)) = [1]
   \<and> spots (snd pending_import) = spots demo_db
   \<and> map s_status (spots (snd pending_import)) ! 0 = ''available''
   \<and> map b_status (bookings pending_db) = [''pending'']
   \<and> map b_spot_id (bookings pending_db) = [1]
   \<and> map s_status (spots pending_db) ! 0 = ''reserved''"
proof -
  have 1: "bookings after_reject = [pending_booking\<lparr>b_status := ''rejected''\<rparr>]" by code_simp
  have 2: "b_user_id pending_booking = u_id asha" by code_simp
  have 3: "fst rejected_release = Flash ''success''" by code_simp
  have 4: "bookings (snd rejected_release)
       = [pending_booking\<lparr>b_status := ''completed'', end_time := Some (now_utc t_approve),
                           total_cost := Some 20\<rparr>]"
    by code_simp
  have 5: "snd rejected_release \<noteq> after_reject" by code_simp
  have 6: "admin_offline_release exact_ops admin_user t_approve 1 after_reject
       = (Flash ''warning'', after_reject)"
    by code_simp
  have 7: "fst pending_import = Rest 201" by code_simp
  have 8: "map b_status (bookings (snd pending_import)) = [''pending'']" by code_simp
  have 9: "map b_spot_id (bookings (snd pending_import)) = [1]" by code_simp
  have 10: "spots (snd pending_import) = spots demo_db" by code_simp
  have 11: "map s_status (spots (snd pending_import)) ! 0 = ''available''" by code_simp
  have 12: "map b_status (bookings pending_db) = [''pending'']" by code_simp
  have 13: "map b_spot_id (bookings pending_db) = [1]" by code_simp
  have 14: "map s_status (spots pending_db) ! 0 = ''reserved''" by code_simp
  show ?thesis by (intro conjI 1 2 3 4 5 6 7 8 9 10 11 12 13 14)
qed

text \<open>
  Claim C4, at an input where the code departs from it. \<open>BookingListAPI.post\<close> stores
  an active booking for a car that already has one: after two posts car 1 has two
  active bookings, on spots 1 and 2. On the same car both \<open>user_book\<close> and
  \<open>admin_offline_book\<close> refuse the second booking.
\<close>

theorem import_two_open_bookings_for_car:
  "car_open_bookings demo_db 1 = []
   \<and> fst one_import = Rest 201
   \<and> length (car_open_bookings (snd one_import) 1) = 1
   \<and> fst same_car_import = Rest 201
   \<and> map b_status (car_open_bookings (snd same_car_import) 1) = [''active'', ''active'']
   \<and> map b_spot_id (car_open_bookings (snd same_car_import) 1) = [1, 2]
   \<and> user_book asha t0 (Some 1) (Some 1) (snd one_import) = (Flash ''warning'', snd one_import)
   \<and> admin_offline_book admin_user t0 (Some ''KA01AB1234'') (Some 1) (snd one_import)
       = (Json False 400, snd one_import)"
proof -
  have 1: "car_open_bookings demo_db 1 = []" by code_simp
  have 2: "fst one_import = Rest 201" by code_simp
  have 3: "length (car_open_bookings (snd one_import) 1) = 1" by code_simp
  have 4: "fst same_car_import = Rest 201" by code_simp
  have 5: "map b_status (car_open_bookings (snd same_car_import) 1) = [''active'', ''active'']"
    by code_simp
  have 6: "map b_spot_id (car_open_bookings (snd same_car_import) 1) = [1, 2]" by code_simp
  have 7: "user_book asha t0 (Some 1) (Some 1) (snd one_import) = (Flash ''warning'', snd one_import)"
    by code_simp
  have 8: "admin_offline_book admin_user t0 (Some ''KA01AB1234'') (Some 1) (snd one_import)
       = (Json False 400, snd one_import)"
    by code_simp
  from 1 2 3 4 5 6 7 8 show ?thesis by blast
qed

text \<open>
  Claim C7, at inputs where the code departs from it. \<open>BookingListAPI.post\<close> stores a
  second active booking on a spot that is occupied, where \<open>admin_offline_book\<close> takes
  another spot. With the web handlers alone: after the owner's release of a rejected
  booking frees a spot that another car occupies, the next booking is put on that spot,
  which then has two active bookings.
\<close>

theorem two_active_bookings_on_spot:
  "spot_active_bookings demo_db 1 = []
   \<and> fst one_import = Rest 201
   \<and> map b_car_id (spot_active_bookings (snd one_import) 1) = [1]
   \<and> fst same_spot_import = Rest 201
   \<and> map b_car_id (spot_active_bookings (snd same_spot_import) 1) = [1, 2]
   \<and> admin_offline_book admin_user t0 (Some ''MH12CD5678'') (Some 1) (snd one_import)
       = (Json True 200, snd (admin_offline_book admin_user t0 (Some ''MH12CD5678'') (Some 1) (snd one_import)))
   \<and> map b_spot_id (bookings (snd (admin_offline_book admin_user t0 (Some ''MH12CD5678'') (Some 1) (snd one_import)))) = [1, 10]
   \<and> map b_status (bookings rebooked) = [''rejected'', ''active'']
   \<and> map b_spot_id (bookings rebooked) = [1, 1]
   \<and> fst stale_release = Flash ''success''
   \<and> map b_status (bookings (snd stale_release)) = [''completed'', ''active'']
   \<and> map s_status (spots (snd stale_release)) ! 0 = ''available''
   \<and> fst walk_in_after = Json True 200
   \<and> map b_status (spot_active_bookings (snd walk_in_after) 1) = [''active'', ''active'']
   \<and> map b_id (spot_active_bookings (snd walk_in_after) 1) = [2, 3]"
proof -
  have 1: "spot_active_bookings demo_db 1 = []" by code_simp
  have 2: "fst one_import = Rest 201" by code_simp
  have 3: "map b_car_id (spot_active_bookings (snd one_import) 1) = [1]" by code_simp
  have 4: "fst same_spot_import = Rest 201" by code_simp
  have 5: "map b_car_id (spot_active_bookings (snd same_spot_import) 1) = [1, 2]" by code_simp
  have 6: "admin_offline_book admin_user t0 (Some ''MH12CD5678'') (Some 1) (snd one_import)
       = (Json True 200, snd (admin_offline_book admin_user t0 (Some ''MH12CD5678'') (Some 1) (snd one_import)))"
    by code_simp
  have 7: "map b_spot_id (bookings (snd (admin_offline_book admin_user t0 (Some ''MH12CD5678'') (Some 1) (snd one_import)))) = [1, 10]"
    by code_simp
  have 8: "map b_status (bookings rebooked) = [''rejected'', ''active'']" by code_simp
  have 9: "map b_spot_id (bookings rebooked) = [1, 1]" by code_simp
  have 10: "fst stale_release = Flash ''success''" by code_simp
  have 11: "map b_status (bookings (snd stale_release)) = [''completed'', ''active'']" by code_simp
  have 12: "map s_status (spots (snd stale_release)) ! 0 = ''available''" by code_simp
  have 13: "fst walk_in_after = Json True 200" by code_simp
  have 14: "map b_status (spot_active_bookings (snd walk_in_after) 1) = [''active'', ''active'']"
    by code_simp
  have 15: "map b_id (spot_active_bookings (snd walk_in_after) 1) = [2, 3]" by code_simp
  from 1 2 3 4 5 6 7 8 9 10 11 12 13 14 15 show ?thesis by blast
qed

section \<open>One open booking per car on the guarded paths\<close>

text \<open>
  The two handlers that look for an active or pending booking of the car before they
  create one keep the number of such bookings of every car at one or less.
\<close>

lemma existing_for_car_None:
  "existing_for_car d cid = None \<longleftrightarrow> car_open_bookings d cid = []"
  by (simp add: existing_for_car_def car_open_bookings_def first_None)

lemma car_open_bookings_add:
  "car_open_bookings (add_booking b (set_spot_status k v d)) cid =
     car_open_bookings d cid
       @ (if b_car_id b = cid \<and> active_or_pending (b_status b) then [b] else [])"
  by (simp add: car_open_bookings_def add_booking_def set_spot_status_def)

lemma car_open_bookings_add_car [simp]:
  "car_open_bookings (add_car c d) cid = car_open_bookings d cid"
  by (simp add: car_open_bookings_def add_car_def)

lemma user_book_checks_car:
  assumes "fst (user_book cu now area_arg car_arg d) = Flash ''info''"
  shows "\<exists>(spot::parking_spot) b. snd (user_book cu now area_arg car_arg d)
               = add_booking b (set_spot_status (s_id spot) ''reserved'' d)
           \<and> existing_for_car d (b_car_id b) = None"
  using assms
  apply (auto simp: user_book_def Let_def split: if_splits option.splits)
  apply (intro exI conjI)
   apply (rule refl)
  apply simp
  done

lemma user_book_keeps_one_open_booking:
  assumes inv: "\<forall>cid. length (car_open_bookings d cid) \<le> 1"
  shows "length (car_open_bookings (snd (user_book cu now area_arg car_arg d)) cid) \<le> 1"
proof (cases "fst (user_book cu now area_arg car_arg d) = Flash ''info''")
  case False
  then have "snd (user_book cu now area_arg car_arg d) = d" by (rule user_book_refused)
  with inv show ?thesis by simp
next
  case True
  from user_book_checks_car [OF True] obtain spot :: parking_spot and b
    where d': "snd (user_book cu now area_arg car_arg d)
                 = add_booking b (set_spot_status (s_id spot) ''reserved'' d)"
      and free: "existing_for_car d (b_car_id b) = None"
    by blast
  from free have "car_open_bookings d (b_car_id b) = []" by (simp add: existing_for_car_None)
  with inv [rule_format, of cid] show ?thesis
    unfolding d' car_open_bookings_add by auto
qed

lemma admin_offline_book_checks_car:
  assumes "fst (admin_offline_book cu now plate_arg area_arg d) = Json True 200"
  shows "\<exists>(spot::parking_spot) b car d0. (d0 = d \<or> d0 = add_car car d)
           \<and> snd (admin_offline_book cu now plate_arg area_arg d)
               = add_booking b (set_spot_status (s_id spot) ''occupied'' d0)
           \<and> existing_for_car d (b_car_id b) = None"
proof -
  let ?plate = "py_upper (py_strip (case plate_arg of None \<Rightarrow> [] | Some p \<Rightarrow> p))"
  from assms obtain area where area: "find (\<lambda>a. Some (a_id a) = area_arg) (areas d) = Some area"
    by (auto simp: admin_offline_book_def Let_def split: if_splits option.splits)
  from assms area obtain car d0 where car: "find_or_create_car ?plate d = Inr (car, d0)"
    by (auto simp: admin_offline_book_def Let_def split: if_splits sum.splits
             dest: find_or_create_car_error)
  then have d0: "d0 = d \<or> d0 = add_car car d" by (rule find_or_create_car_session)
  from assms area car have ex: "existing_for_car d0 (c_id car) = None"
    by (auto simp: admin_offline_book_def Let_def split: if_splits option.splits)
  with d0 have ex': "existing_for_car d (c_id car) = None"
    by (auto simp: existing_for_car_None)
  from assms area car ex obtain spot where spot: "first_available_spot d0 (a_id area) = Some spot"
    by (auto simp: admin_offline_book_def Let_def split: if_splits option.splits)
  let ?b = "\<lparr>b_id = next_id (map b_id (bookings (set_spot_status (s_id spot) ''occupied'' d0))),
             b_user_id = c_user_id car, b_car_id = c_id car, b_spot_id = s_id spot,
             start_time = Some (now_utc now), end_time = None, b_status = ''active'',
             total_cost = None\<rparr>"
  from assms area car ex spot
  have "snd (admin_offline_book cu now plate_arg area_arg d)
          = add_booking ?b (set_spot_status (s_id spot) ''occupied'' d0)"
    by (auto simp: admin_offline_book_def Let_def split: if_splits option.splits)
  moreover have "existing_for_car d (b_car_id ?b) = None" using ex' by simp
  ultimately show ?thesis using d0 by blast
qed

lemma admin_offline_book_keeps_one_open_booking:
  assumes inv: "\<forall>cid. length (car_open_bookings d cid) \<le> 1"
  shows "length (car_open_bookings (snd (admin_offline_book cu now plate_arg area_arg d)) cid) \<le> 1"
proof (cases "fst (admin_offline_book cu now plate_arg area_arg d) = Json True 200")
  case False
  then have "snd (admin_offline_book cu now plate_arg area_arg d) = d"
    by (rule admin_offline_book_refused)
  with inv show ?thesis by simp
next
  case True
  from admin_offline_book_checks_car [OF True] obtain spot :: parking_spot and b car d0
    where d0: "d0 = d \<or> d0 = add_car car d"
      and d': "snd (admin_offline_book cu now plate_arg area_arg d)
                 = add_booking b (set_spot_status (s_id spot) ''occupied'' d0)"
      and free: "existing_for_car d (b_car_id b) = None"
    by blast
  from free have e: "car_open_bookings d (b_car_id b) = []" by (simp add: existing_for_car_None)
  from d0 have same: "car_open_bookings d0 cid = car_open_bookings d cid" by auto
  from e inv [rule_format, of cid] show ?thesis
    unfolding d' car_open_bookings_add same by auto
qed

end
